theory Spec2Isabelle
  imports Main "HOL-Library.Word"
begin

unbundle bit_operations_syntax

section \<open>Gfx6 graphics pipeline: register setup and command emission\<close>

text \<open>
  A shallow embedding of \<^verbatim>\<open>src/core/hw/gfxip/gfx6/gfx6GraphicsPipeline.cpp\<close>.
  \<^verbatim>\<open>uint32\<close>, \<^verbatim>\<open>uint16\<close> and \<^verbatim>\<open>uint8\<close> are words, so
  the arithmetic wraps as in C++. An object reached through a pointer that may be
  \<^verbatim>\<open>nullptr\<close> is an \<open>option\<close>. \<^verbatim>\<open>PAL_ASSERT\<close> does not change the
  control flow: a function whose assertions matter returns, next to its result, which
  assertions fired.
\<close>

type_synonym uint8 = "8 word"
type_synonym uint16 = "16 word"
type_synonym uint32 = "32 word"

subsection \<open>Device properties\<close>

text \<open>
  The members of \<^verbatim>\<open>GpuChipProperties\<close> (and its \<^verbatim>\<open>gfx6\<close> and
  \<^verbatim>\<open>gfxip\<close> parts) that the modelled functions read.
\<close>

datatype GfxIpLevel = GfxIp6 | GfxIp7 | GfxIp8

record GpuChipProperties =
  gfxLevel :: GfxIpLevel
  numSimdPerCu :: uint32
  numWavesPerSimd :: uint32
  maxNumCuPerSh :: uint32
  numCuPerSh :: uint32
  numCuAlwaysOnPerSh :: uint32
  numShaderEngines :: uint32
  gsVgtTableDepth :: uint32
  numPhysicalSgprs :: uint32
  numPhysicalVgprs :: uint32
  maxLateAllocVsLimit :: uint32
  rbPlus :: bool

subsection \<open>\<^verbatim>\<open>CalcMaxWavesPerSh\<close>\<close>

text \<open>The locals \<^verbatim>\<open>numWavefrontsPerCu\<close> and \<^verbatim>\<open>maxWavesPerShGraphics\<close>.\<close>

definition numWavefrontsPerCu :: "GpuChipProperties \<Rightarrow> uint32" where
  "numWavefrontsPerCu chip = numSimdPerCu chip * numWavesPerSimd chip"

definition maxWavesPerShGraphics :: "GpuChipProperties \<Rightarrow> uint32" where
  "maxWavesPerShGraphics chip = maxNumCuPerSh chip * numWavefrontsPerCu chip"

definition MaxWavesPerShGraphicsUnitSize :: uint32 where
  "MaxWavesPerShGraphicsUnitSize = 16"

text \<open>
  The result is the \<^verbatim>\<open>WAVE_LIMIT\<close> value; the second component tells whether
  \<^verbatim>\<open>PAL_ASSERT(maxWavesPerCu <= numWavefrontsPerCu)\<close> failed.
\<close>

definition CalcMaxWavesPerSh :: "GpuChipProperties \<Rightarrow> uint32 \<Rightarrow> uint32 \<times> bool" where
  "CalcMaxWavesPerSh chip maxWavesPerCu =
     (if maxWavesPerCu > 0 then
        (let maxWavesPerSh = maxWavesPerCu * numCuPerSh chip
         in (min (maxWavesPerShGraphics chip)
                 (max 1 (maxWavesPerSh div MaxWavesPerShGraphicsUnitSize)),
             \<not> maxWavesPerCu \<le> numWavefrontsPerCu chip))
      else (0, False))"

subsection \<open>\<^verbatim>\<open>CanDrawPrimsOutOfOrder\<close>\<close>

text \<open>
  The setting \<^verbatim>\<open>gfx7EnableOutOfOrderPrimitives\<close>: the four enumerators the function
  names, and any other value the setting may hold.
\<close>

datatype OutOfOrderPrimMode =
    OutOfOrderPrimDisable
  | OutOfOrderPrimSafe
  | OutOfOrderPrimAggressive
  | OutOfOrderPrimAlways
  | OutOfOrderPrimUnrecognized uint32

record DepthStencilView =
  ReadOnlyDepth :: bool
  ReadOnlyStencil :: bool

record DepthStencilState =
  IsDepthWriteEnabled :: bool
  IsStencilWriteEnabled :: bool
  CanDepthRunOutOfOrder :: bool
  CanStencilRunOutOfOrder :: bool
  DepthForcesOrdering :: bool

record ColorBlendState =
  IsBlendCommutative :: "nat \<Rightarrow> bool"
  IsBlendEnabled :: "nat \<Rightarrow> bool"

text \<open>
  What the function asks of the pipeline itself: \<^verbatim>\<open>PsWritesUavs()\<close> and
  \<^verbatim>\<open>GetTargetMask(i)\<close>, both declared in the class header.
\<close>

record PipelineOutOfOrderInfo =
  PsWritesUavs :: bool
  GetTargetMask :: "nat \<Rightarrow> uint8"

text \<open>
  Modelled from the spec: \<^verbatim>\<open>MaxColorTargets\<close> is declared in the public interface
  headers; the spec gives "up to 8 slots".
\<close>

definition MaxColorTargets :: nat where
  "MaxColorTargets = 8"

text \<open>
  The loop over the colour targets, with its \<^verbatim>\<open>break\<close>: the value of
  \<^verbatim>\<open>enableOutOfOrderPrims\<close> after the loop, which enters with \<open>True\<close>.
\<close>

fun blendTargetsLoop ::
  "PipelineOutOfOrderInfo \<Rightarrow> ColorBlendState \<Rightarrow> OutOfOrderPrimMode \<Rightarrow> bool \<Rightarrow> bool
     \<Rightarrow> nat list \<Rightarrow> bool" where
  "blendTargetsLoop p bs mode canRenderTargetRunOutOfOrder isDepthStencilWriteEnabled [] = True"
| "blendTargetsLoop p bs mode canRenderTargetRunOutOfOrder isDepthStencilWriteEnabled (i # rest) =
     (if GetTargetMask p i > 0 then
        (let canBlendingRunOutOfOrder =
               (IsBlendCommutative bs i \<and> mode = OutOfOrderPrimAggressive)
         in if (IsBlendEnabled bs i \<or> canRenderTargetRunOutOfOrder = False) \<and>
               (canBlendingRunOutOfOrder = False \<or> isDepthStencilWriteEnabled)
            then False
            else blendTargetsLoop p bs mode canRenderTargetRunOutOfOrder
                   isDepthStencilWriteEnabled rest)
      else blendTargetsLoop p bs mode canRenderTargetRunOutOfOrder
             isDepthStencilWriteEnabled rest)"

definition CanDrawPrimsOutOfOrder ::
  "PipelineOutOfOrderInfo \<Rightarrow> DepthStencilView option \<Rightarrow> DepthStencilState option
     \<Rightarrow> ColorBlendState option \<Rightarrow> uint32 \<Rightarrow> OutOfOrderPrimMode \<Rightarrow> bool" where
  "CanDrawPrimsOutOfOrder p pDsView pDepthStencilState pBlendState hasActiveQueries
       gfx7EnableOutOfOrderPrimitives =
     (if gfx7EnableOutOfOrderPrimitives = OutOfOrderPrimSafe \<or>
         gfx7EnableOutOfOrderPrimitives = OutOfOrderPrimAggressive then
        (if PsWritesUavs p then False
         else case pDepthStencilState of
           None \<Rightarrow> False
         | Some dss \<Rightarrow>
               (let isDepthStencilWriteEnabled =
                      (case pDsView of
                         None \<Rightarrow> False
                       | Some dsv \<Rightarrow>
                           (let isDepthWriteEnabled =
                                  (ReadOnlyDepth dsv = False \<and> IsDepthWriteEnabled dss);
                                isStencilWriteEnabled =
                                  (ReadOnlyStencil dsv = False \<and> IsStencilWriteEnabled dss)
                            in isDepthWriteEnabled \<or> isStencilWriteEnabled));
                    canDepthStencilRunOutOfOrder =
                      (if gfx7EnableOutOfOrderPrimitives = OutOfOrderPrimSafe \<and>
                          hasActiveQueries \<noteq> 0
                       then \<not> isDepthStencilWriteEnabled
                       else (isDepthStencilWriteEnabled = False \<or>
                             (CanDepthRunOutOfOrder dss \<and> CanStencilRunOutOfOrder dss)))
                in if canDepthStencilRunOutOfOrder = False \<or> pDsView = None then False
                   else
                     (let canRenderTargetRunOutOfOrder =
                            (gfx7EnableOutOfOrderPrimitives = OutOfOrderPrimAggressive \<and>
                             DepthForcesOrdering dss)
                      in case pBlendState of
                           Some bs \<Rightarrow>
                             blendTargetsLoop p bs gfx7EnableOutOfOrderPrimitives
                               canRenderTargetRunOutOfOrder isDepthStencilWriteEnabled
                               [0 ..< MaxColorTargets]
                         | None \<Rightarrow> canRenderTargetRunOutOfOrder)))
      else if gfx7EnableOutOfOrderPrimitives \<noteq> OutOfOrderPrimAlways then False
      else True)"

subsection \<open>RB+ downconversion\<close>

text \<open>
  \<^verbatim>\<open>ChNumFormat\<close>: the enumerators that \<^verbatim>\<open>SxDownConvertFormat\<close> names;
  \<open>OtherChNumFormat\<close> stands for every enumerator it does not name (its
  \<^verbatim>\<open>default\<close> case).
\<close>

datatype ChNumFormat =
    X4Y4Z4W4_Unorm | X4Y4Z4W4_Uscaled
  | X5Y6Z5_Unorm | X5Y6Z5_Uscaled
  | X5Y5Z5W1_Unorm | X5Y5Z5W1_Uscaled
  | X8_Unorm | X8_Snorm | X8_Uscaled | X8_Sscaled | X8_Uint | X8_Sint | X8_Srgb
  | L8_Unorm | P8_Uint
  | X8Y8_Unorm | X8Y8_Snorm | X8Y8_Uscaled | X8Y8_Sscaled | X8Y8_Uint | X8Y8_Sint | X8Y8_Srgb
  | L8A8_Unorm
  | X8Y8Z8W8_Unorm | X8Y8Z8W8_Snorm | X8Y8Z8W8_Uscaled | X8Y8Z8W8_Sscaled
  | X8Y8Z8W8_Uint | X8Y8Z8W8_Sint | X8Y8Z8W8_Srgb
  | X11Y11Z10_Float
  | X10Y10Z10W2_Unorm | X10Y10Z10W2_Uscaled
  | X16_Unorm | X16_Snorm | X16_Uscaled | X16_Sscaled | X16_Uint | X16_Sint | X16_Float
  | L16_Unorm
  | X16Y16_Unorm | X16Y16_Snorm | X16Y16_Uscaled | X16Y16_Sscaled
  | X16Y16_Uint | X16Y16_Sint | X16Y16_Float
  | X32_Uint | X32_Sint | X32_Float
  | OtherChNumFormat nat

datatype SX_DOWNCONVERT_FORMAT =
    SX_RT_EXPORT_NO_CONVERSION
  | SX_RT_EXPORT_32_R
  | SX_RT_EXPORT_32_A
  | SX_RT_EXPORT_10_11_11
  | SX_RT_EXPORT_2_10_10_10
  | SX_RT_EXPORT_8_8_8_8
  | SX_RT_EXPORT_5_6_5
  | SX_RT_EXPORT_1_5_5_5
  | SX_RT_EXPORT_4_4_4_4
  | SX_RT_EXPORT_16_16_GR
  | SX_RT_EXPORT_16_16_AR

definition SxDownConvertFormat :: "ChNumFormat \<Rightarrow> SX_DOWNCONVERT_FORMAT" where
  "SxDownConvertFormat format =
     (case format of
        X4Y4Z4W4_Unorm \<Rightarrow> SX_RT_EXPORT_4_4_4_4
      | X4Y4Z4W4_Uscaled \<Rightarrow> SX_RT_EXPORT_4_4_4_4
      | X5Y6Z5_Unorm \<Rightarrow> SX_RT_EXPORT_5_6_5
      | X5Y6Z5_Uscaled \<Rightarrow> SX_RT_EXPORT_5_6_5
      | X5Y5Z5W1_Unorm \<Rightarrow> SX_RT_EXPORT_1_5_5_5
      | X5Y5Z5W1_Uscaled \<Rightarrow> SX_RT_EXPORT_1_5_5_5
      | X8_Unorm \<Rightarrow> SX_RT_EXPORT_8_8_8_8
      | X8_Snorm \<Rightarrow> SX_RT_EXPORT_8_8_8_8
      | X8_Uscaled \<Rightarrow> SX_RT_EXPORT_8_8_8_8
      | X8_Sscaled \<Rightarrow> SX_RT_EXPORT_8_8_8_8
      | X8_Uint \<Rightarrow> SX_RT_EXPORT_8_8_8_8
      | X8_Sint \<Rightarrow> SX_RT_EXPORT_8_8_8_8
      | X8_Srgb \<Rightarrow> SX_RT_EXPORT_8_8_8_8
      | L8_Unorm \<Rightarrow> SX_RT_EXPORT_8_8_8_8
      | P8_Uint \<Rightarrow> SX_RT_EXPORT_8_8_8_8
      | X8Y8_Unorm \<Rightarrow> SX_RT_EXPORT_8_8_8_8
      | X8Y8_Snorm \<Rightarrow> SX_RT_EXPORT_8_8_8_8
      | X8Y8_Uscaled \<Rightarrow> SX_RT_EXPORT_8_8_8_8
      | X8Y8_Sscaled \<Rightarrow> SX_RT_EXPORT_8_8_8_8
      | X8Y8_Uint \<Rightarrow> SX_RT_EXPORT_8_8_8_8
      | X8Y8_Sint \<Rightarrow> SX_RT_EXPORT_8_8_8_8
      | X8Y8_Srgb \<Rightarrow> SX_RT_EXPORT_8_8_8_8
      | L8A8_Unorm \<Rightarrow> SX_RT_EXPORT_8_8_8_8
      | X8Y8Z8W8_Unorm \<Rightarrow> SX_RT_EXPORT_8_8_8_8
      | X8Y8Z8W8_Snorm \<Rightarrow> SX_RT_EXPORT_8_8_8_8
      | X8Y8Z8W8_Uscaled \<Rightarrow> SX_RT_EXPORT_8_8_8_8
      | X8Y8Z8W8_Sscaled \<Rightarrow> SX_RT_EXPORT_8_8_8_8
      | X8Y8Z8W8_Uint \<Rightarrow> SX_RT_EXPORT_8_8_8_8
      | X8Y8Z8W8_Sint \<Rightarrow> SX_RT_EXPORT_8_8_8_8
      | X8Y8Z8W8_Srgb \<Rightarrow> SX_RT_EXPORT_8_8_8_8
      | X11Y11Z10_Float \<Rightarrow> SX_RT_EXPORT_10_11_11
      | X10Y10Z10W2_Unorm \<Rightarrow> SX_RT_EXPORT_2_10_10_10
      | X10Y10Z10W2_Uscaled \<Rightarrow> SX_RT_EXPORT_2_10_10_10
      | X16_Unorm \<Rightarrow> SX_RT_EXPORT_16_16_AR
      | X16_Snorm \<Rightarrow> SX_RT_EXPORT_16_16_AR
      | X16_Uscaled \<Rightarrow> SX_RT_EXPORT_16_16_AR
      | X16_Sscaled \<Rightarrow> SX_RT_EXPORT_16_16_AR
      | X16_Uint \<Rightarrow> SX_RT_EXPORT_16_16_AR
      | X16_Sint \<Rightarrow> SX_RT_EXPORT_16_16_AR
      | X16_Float \<Rightarrow> SX_RT_EXPORT_16_16_AR
      | L16_Unorm \<Rightarrow> SX_RT_EXPORT_16_16_AR
      | X16Y16_Unorm \<Rightarrow> SX_RT_EXPORT_16_16_GR
      | X16Y16_Snorm \<Rightarrow> SX_RT_EXPORT_16_16_GR
      | X16Y16_Uscaled \<Rightarrow> SX_RT_EXPORT_16_16_GR
      | X16Y16_Sscaled \<Rightarrow> SX_RT_EXPORT_16_16_GR
      | X16Y16_Uint \<Rightarrow> SX_RT_EXPORT_16_16_GR
      | X16Y16_Sint \<Rightarrow> SX_RT_EXPORT_16_16_GR
      | X16Y16_Float \<Rightarrow> SX_RT_EXPORT_16_16_GR
      | X32_Uint \<Rightarrow> SX_RT_EXPORT_32_R
      | X32_Sint \<Rightarrow> SX_RT_EXPORT_32_R
      | X32_Float \<Rightarrow> SX_RT_EXPORT_32_R
      | OtherChNumFormat n \<Rightarrow> SX_RT_EXPORT_NO_CONVERSION)"

text \<open>
  The second component is \<open>True\<close> when the \<^verbatim>\<open>default\<close> case with its
  \<^verbatim>\<open>PAL_ASSERT_ALWAYS\<close> is reached.
\<close>

definition SxBlendOptEpsilon :: "SX_DOWNCONVERT_FORMAT \<Rightarrow> uint32 \<times> bool" where
  "SxBlendOptEpsilon sxDownConvertFormat =
     (case sxDownConvertFormat of
        SX_RT_EXPORT_32_R \<Rightarrow> (0, False)
      | SX_RT_EXPORT_32_A \<Rightarrow> (0, False)
      | SX_RT_EXPORT_16_16_GR \<Rightarrow> (0, False)
      | SX_RT_EXPORT_16_16_AR \<Rightarrow> (0, False)
      | SX_RT_EXPORT_10_11_11 \<Rightarrow> (0, False)
      | SX_RT_EXPORT_2_10_10_10 \<Rightarrow> (3, False)
      | SX_RT_EXPORT_8_8_8_8 \<Rightarrow> (6, False)
      | SX_RT_EXPORT_5_6_5 \<Rightarrow> (11, False)
      | SX_RT_EXPORT_1_5_5_5 \<Rightarrow> (13, False)
      | SX_RT_EXPORT_4_4_4_4 \<Rightarrow> (15, False)
      | SX_RT_EXPORT_NO_CONVERSION \<Rightarrow> (0, True))"

text \<open>
  What the chip register headers declare for the three \<^verbatim>\<open>SX\<close> registers: the
  number of each \<^verbatim>\<open>SX_DOWNCONVERT_FORMAT\<close> enumerator and the field masks of
  target 0. The headers are not part of the sources, so they are parameters.
\<close>

record SxRegisterHeader =
  SxFormatCode :: "SX_DOWNCONVERT_FORMAT \<Rightarrow> uint32"
  SX_PS_DOWNCONVERT__MRT0_MASK :: uint32
  SX_BLEND_OPT_EPSILON__MRT0_EPSILON_MASK :: uint32
  SX_BLEND_OPT_CONTROL__MRT0_COLOR_OPT_DISABLE_MASK :: uint32
  SX_BLEND_OPT_CONTROL__MRT0_ALPHA_OPT_DISABLE_MASK :: uint32

definition SxBlendOptControl :: "SxRegisterHeader \<Rightarrow> uint32 \<Rightarrow> uint32" where
  "SxBlendOptControl hdr writeMask =
     (let AlphaMask = 0x8;
          ColorMask = 0x7;
          colorOptDisable =
            (if writeMask AND ColorMask \<noteq> 0 then 0
             else SX_BLEND_OPT_CONTROL__MRT0_COLOR_OPT_DISABLE_MASK hdr);
          alphaOptDisable =
            (if writeMask AND AlphaMask \<noteq> 0 then 0
             else SX_BLEND_OPT_CONTROL__MRT0_ALPHA_OPT_DISABLE_MASK hdr)
      in colorOptDisable OR alphaOptDisable)"

record SxRegisters =
  sxPsDownconvert :: uint32
  sxBlendOptEpsilon :: uint32
  sxBlendOptControl :: uint32

text \<open>
  The local \<^verbatim>\<open>blendOptEpsilon\<close> of \<^verbatim>\<open>SetupRbPlusRegistersForSlot\<close>, with the
  assertion flag of the call it may make.
\<close>

definition slotBlendOptEpsilon :: "ChNumFormat \<Rightarrow> uint32 \<times> bool" where
  "slotBlendOptEpsilon format =
     (let downConvertFormat = SxDownConvertFormat format
      in if downConvertFormat = SX_RT_EXPORT_NO_CONVERSION then (0, False)
         else SxBlendOptEpsilon downConvertFormat)"

definition SetupRbPlusRegistersForSlot ::
  "SxRegisterHeader \<Rightarrow> uint32 \<Rightarrow> uint8 \<Rightarrow> ChNumFormat \<Rightarrow> SxRegisters
     \<Rightarrow> SxRegisters \<times> bool" where
  "SetupRbPlusRegistersForSlot hdr slot writeMask format regs =
     (let bitShift = unat (4 * slot);
          downConvertFormat = SxDownConvertFormat format;
          blendOptControl = SxBlendOptControl hdr (ucast writeMask);
          blendOptEpsilon = slotBlendOptEpsilon format;
          d1 = sxPsDownconvert regs
                 AND NOT (push_bit bitShift (SX_PS_DOWNCONVERT__MRT0_MASK hdr));
          d2 = d1 OR push_bit bitShift (SxFormatCode hdr downConvertFormat);
          e1 = sxBlendOptEpsilon regs
                 AND NOT (push_bit bitShift (SX_BLEND_OPT_EPSILON__MRT0_EPSILON_MASK hdr));
          e2 = e1 OR push_bit bitShift (fst blendOptEpsilon);
          c1 = sxBlendOptControl regs
                 AND NOT (push_bit bitShift
                            (SX_BLEND_OPT_CONTROL__MRT0_COLOR_OPT_DISABLE_MASK hdr OR
                             SX_BLEND_OPT_CONTROL__MRT0_ALPHA_OPT_DISABLE_MASK hdr));
          c2 = c1 OR push_bit bitShift blendOptControl
      in (\<lparr>sxPsDownconvert = d2, sxBlendOptEpsilon = e2, sxBlendOptControl = c2\<rparr>,
          snd blendOptEpsilon))"

subsection \<open>Registers as records of their fields\<close>

text \<open>
  The register unions (\<^verbatim>\<open>u32All\<close> over \<^verbatim>\<open>bits\<close>) are declared in the chip
  register headers, which are not part of the sources. A register whose fields the code
  names is a record of those fields, each a number; a register the code only handles as
  \<^verbatim>\<open>u32All\<close> is a \<open>uint32\<close>. Storing a computed value into a field keeps its low
  bits: the width of such a field is a parameter.
\<close>

definition storeBitfield :: "nat \<Rightarrow> int \<Rightarrow> nat" where
  "storeBitfield width v = nat (v mod 2 ^ width)"

record RegisterFieldWidths =
  PRIMGROUP_SIZE_width :: nat
  LIMIT_width :: nat

record regIA_MULTI_VGT_PARAM =
  PRIMGROUP_SIZE :: nat
  PARTIAL_VS_WAVE_ON :: nat
  SWITCH_ON_EOP :: nat
  PARTIAL_ES_WAVE_ON :: nat
  SWITCH_ON_EOI :: nat
  WD_SWITCH_ON_EOP :: nat
  MAX_PRIMGRP_IN_WAVE :: nat

record regVGT_LS_HS_CONFIG =
  NUM_PATCHES :: nat
  HS_NUM_INPUT_CP :: nat

datatype VgtDistributionMode = NO_DIST | OtherDistributionMode nat

record regVGT_TF_PARAM =
  DISTRIBUTION_MODE :: VgtDistributionMode
  NUM_DS_WAVES_PER_SIMD :: nat

record regSPI_SHADER_PGM_RSRC1_VS =
  SGPRS :: nat
  VGPRS :: nat

record regSPI_SHADER_LATE_ALLOC_VS =
  LIMIT :: nat

text \<open>
  The registers of the pipeline binary that the modelled functions read. A register read
  with \<^verbatim>\<open>At\<close> is a value; one read with \<^verbatim>\<open>HasEntry\<close> is an \<open>option\<close>, and
  its destination (zero-initialised by the caller) is left alone when it is absent.
\<close>

record RegisterVector =
  IA_MULTI_VGT_PARAM_entry :: "regIA_MULTI_VGT_PARAM option"
  VGT_STRMOUT_CONFIG_entry :: "uint32 option"
  SPI_SHADER_PGM_RSRC1_VS_at :: regSPI_SHADER_PGM_RSRC1_VS
  SPI_SHADER_PGM_RSRC2_VS_SCRATCH_EN_at :: nat
  SPI_SHADER_PGM_RSRC2_PS_SCRATCH_EN_at :: nat
  CB_SHADER_MASK_at :: uint32

text \<open>\<^verbatim>\<open>regIA_MULTI_VGT_PARAM iaMultiVgtParam = { }\<close>.\<close>

definition zero_IA_MULTI_VGT_PARAM :: regIA_MULTI_VGT_PARAM where
  "zero_IA_MULTI_VGT_PARAM =
     \<lparr>PRIMGROUP_SIZE = 0, PARTIAL_VS_WAVE_ON = 0, SWITCH_ON_EOP = 0, PARTIAL_ES_WAVE_ON = 0,
      SWITCH_ON_EOI = 0, WD_SWITCH_ON_EOP = 0, MAX_PRIMGRP_IN_WAVE = 0\<rparr>"

text \<open>The order of the \<^verbatim>\<open>GfxIpLevel\<close> enumerators, for \<^verbatim>\<open>>\<close> and \<^verbatim>\<open>>=\<close>.\<close>

fun gfxLevelOrd :: "GfxIpLevel \<Rightarrow> nat" where
  "gfxLevelOrd GfxIp6 = 6"
| "gfxLevelOrd GfxIp7 = 7"
| "gfxLevelOrd GfxIp8 = 8"

text \<open>
  \<^verbatim>\<open>IsTessEnabled()\<close>, \<^verbatim>\<open>IsGsEnabled()\<close> and \<^verbatim>\<open>IsGsOnChip()\<close> of the
  pipeline, declared in the class headers.
\<close>

record PipelineStages =
  IsTessEnabled :: bool
  IsGsEnabled :: bool
  IsGsOnChip :: bool

subsection \<open>\<^verbatim>\<open>FixupIaMultiVgtParamOnGfx7Plus\<close> and \<^verbatim>\<open>SetupIaMultiVgtParam\<close>\<close>

text \<open>
  The second component of the result is \<open>True\<close> when every \<^verbatim>\<open>PAL_ASSERT\<close> on the
  way held.
\<close>

definition FixupIaMultiVgtParamOnGfx7Plus ::
  "GpuChipProperties \<Rightarrow> bool \<Rightarrow> PipelineStages \<Rightarrow> regVGT_TF_PARAM \<Rightarrow> bool
     \<Rightarrow> regIA_MULTI_VGT_PARAM \<Rightarrow> regIA_MULTI_VGT_PARAM \<times> bool" where
  "FixupIaMultiVgtParamOnGfx7Plus chip WaShaderOffChipGsHang stages vgtTfParam
       forceWdSwitchOnEop r0 =
     (let GsTableDepthReservedForEsWave = (3 :: uint32);
          GsPrimsPerEsThread = (256 :: uint32);
          a1 = (gfxLevel chip \<noteq> GfxIp6);
          r1 = (if IsGsEnabled stages \<and>
                   GsPrimsPerEsThread div (word_of_nat (PRIMGROUP_SIZE r0) + 1)
                     \<ge> gsVgtTableDepth chip - GsTableDepthReservedForEsWave
                then r0\<lparr>PARTIAL_ES_WAVE_ON := 1\<rparr> else r0);
          (r2, a2) =
            (if gfxLevelOrd (gfxLevel chip) \<ge> gfxLevelOrd GfxIp8 then
               (let m = r1\<lparr>MAX_PRIMGRP_IN_WAVE := 2\<rparr>;
                    (d, ad) =
                      (if DISTRIBUTION_MODE vgtTfParam \<noteq> NO_DIST then
                         (if IsGsEnabled stages then m\<lparr>PARTIAL_ES_WAVE_ON := 1\<rparr>
                          else m\<lparr>PARTIAL_VS_WAVE_ON := 1\<rparr>,
                          IsTessEnabled stages \<and> NUM_DS_WAVES_PER_SIMD vgtTfParam = 0)
                       else (m, True));
                    h = (if IsGsEnabled stages \<and> WaShaderOffChipGsHang \<noteq> False
                         then d\<lparr>PARTIAL_VS_WAVE_ON := 1\<rparr> else d)
                in (h, ad))
             else (r1, DISTRIBUTION_MODE vgtTfParam = NO_DIST));
          r3 = (if SWITCH_ON_EOP r2 = 1 \<or> numShaderEngines chip \<le> 2 \<or> forceWdSwitchOnEop
                then r2\<lparr>WD_SWITCH_ON_EOP := 1\<rparr>
                else r2\<lparr>WD_SWITCH_ON_EOP := 0, SWITCH_ON_EOI := 1, PARTIAL_ES_WAVE_ON := 1\<rparr>);
          requirePartialVsWaveWithEoi =
            (gfxLevel chip = GfxIp7 \<and> numShaderEngines chip > 2);
          r4 = (if SWITCH_ON_EOI r3 = 1 \<and> requirePartialVsWaveWithEoi
                then r3\<lparr>PARTIAL_VS_WAVE_ON := 1\<rparr> else r3)
      in (r4, a1 \<and> a2))"

text \<open>
  Modelled from the spec: \<^verbatim>\<open>NumIaMultiVgtParam\<close> is declared in the class header; the
  spec gives "two context slots (even/odd submit index)".
\<close>

definition NumIaMultiVgtParam :: nat where
  "NumIaMultiVgtParam = 2"

text \<open>
  The local \<^verbatim>\<open>iaMultiVgtParam\<close> when the loop over the slots starts.
\<close>

definition iaMultiVgtParamBeforeSlots ::
  "RegisterFieldWidths \<Rightarrow> bool \<Rightarrow> PipelineStages \<Rightarrow> regVGT_LS_HS_CONFIG \<Rightarrow> RegisterVector
     \<Rightarrow> regIA_MULTI_VGT_PARAM" where
  "iaMultiVgtParamBeforeSlots widths waMiscGsNullPrim stages vgtLsHsConfig registers =
     (let i0 = (case IA_MULTI_VGT_PARAM_entry registers of
                  None \<Rightarrow> zero_IA_MULTI_VGT_PARAM
                | Some v \<Rightarrow> v);
          i1 = (if IsTessEnabled stages then
                  i0\<lparr>PRIMGROUP_SIZE :=
                       storeBitfield (PRIMGROUP_SIZE_width widths)
                         (int (NUM_PATCHES vgtLsHsConfig) - 1)\<rparr>
                else if IsGsEnabled stages \<and> HS_NUM_INPUT_CP vgtLsHsConfig \<noteq> 0 then
                  i0\<lparr>PRIMGROUP_SIZE :=
                       storeBitfield (PRIMGROUP_SIZE_width widths)
                         (256 div int (HS_NUM_INPUT_CP vgtLsHsConfig) - 1)\<rparr>
                else i0);
          i2 = (if IsGsEnabled stages \<and> IsGsOnChip stages
                then i1\<lparr>PARTIAL_ES_WAVE_ON := 1\<rparr> else i1);
          i3 = (if waMiscGsNullPrim \<noteq> False \<and> IsTessEnabled stages \<and> IsGsEnabled stages
                then i2\<lparr>PARTIAL_VS_WAVE_ON := 1\<rparr> else i2)
      in i3)"

text \<open>
  One round of the loop: the value of \<^verbatim>\<open>m_regs.context.iaMultiVgtParam[idx]\<close>, and
  whether the assertions of the round held.
\<close>

definition iaMultiVgtParamForSlot ::
  "GpuChipProperties \<Rightarrow> bool \<Rightarrow> PipelineStages \<Rightarrow> regVGT_TF_PARAM \<Rightarrow> RegisterVector
     \<Rightarrow> regIA_MULTI_VGT_PARAM \<Rightarrow> nat \<Rightarrow> regIA_MULTI_VGT_PARAM \<times> bool" where
  "iaMultiVgtParamForSlot chip WaShaderOffChipGsHang stages vgtTfParam registers
       iaMultiVgtParam idx =
     (let vgtStrmoutConfig = (case VGT_STRMOUT_CONFIG_entry registers of
                                None \<Rightarrow> 0 | Some v \<Rightarrow> v);
          (r, a) = (if gfxLevelOrd (gfxLevel chip) > gfxLevelOrd GfxIp6
                    then FixupIaMultiVgtParamOnGfx7Plus chip WaShaderOffChipGsHang stages
                           vgtTfParam (idx \<noteq> 0) iaMultiVgtParam
                    else (iaMultiVgtParam, True));
          b = (if vgtStrmoutConfig \<noteq> 0 \<and> numShaderEngines chip = 2 \<and>
                  PARTIAL_ES_WAVE_ON r = 0
               then PRIMGROUP_SIZE r < 256 else True)
      in (r, a \<and> b))"

definition SetupIaMultiVgtParam ::
  "GpuChipProperties \<Rightarrow> RegisterFieldWidths \<Rightarrow> bool \<Rightarrow> bool \<Rightarrow> PipelineStages
     \<Rightarrow> regVGT_LS_HS_CONFIG \<Rightarrow> regVGT_TF_PARAM \<Rightarrow> RegisterVector
     \<Rightarrow> (regIA_MULTI_VGT_PARAM \<times> bool) list" where
  "SetupIaMultiVgtParam chip widths waMiscGsNullPrim WaShaderOffChipGsHang stages
       vgtLsHsConfig vgtTfParam registers =
     map (iaMultiVgtParamForSlot chip WaShaderOffChipGsHang stages vgtTfParam registers
            (iaMultiVgtParamBeforeSlots widths waMiscGsNullPrim stages vgtLsHsConfig registers))
       [0 ..< NumIaMultiVgtParam]"

subsection \<open>\<^verbatim>\<open>SetupLateAllocVs\<close>\<close>

text \<open>
  What the function reads besides the chip properties and the binary's registers: the
  pipeline's own limit, the device's limit and scheme, two settings, and the constant
  \<^verbatim>\<open>NumSimdPerCu\<close> of the chip headers.
\<close>

record LateAllocVsConfig =
  IsLateAllocVsLimit :: bool
  GetLateAllocVsLimit :: uint32
  DeviceLateAllocVsLimit :: uint32
  UseFixedLateAllocVsLimit :: bool
  gfx7LateAllocVsOnCuAlwaysOn :: bool
  numScratchWavesPerCu :: uint32
  NumSimdPerCu :: uint32

definition targetLateAllocLimit :: "LateAllocVsConfig \<Rightarrow> uint32" where
  "targetLateAllocLimit cfg =
     (if IsLateAllocVsLimit cfg then GetLateAllocVsLimit cfg else DeviceLateAllocVsLimit cfg)"

text \<open>
  The local \<^verbatim>\<open>lateAllocLimit\<close> after the choice between the fixed and the computed
  scheme, before it is turned into the register value.
\<close>

definition computedLateAllocLimit ::
  "GpuChipProperties \<Rightarrow> LateAllocVsConfig \<Rightarrow> RegisterVector \<Rightarrow> uint32" where
  "computedLateAllocLimit chip cfg registers =
     (let vsNumSgpr = (word_of_nat (SGPRS (SPI_SHADER_PGM_RSRC1_VS_at registers)) * 8 :: uint32);
          vsNumVgpr = (word_of_nat (VGPRS (SPI_SHADER_PGM_RSRC1_VS_at registers)) * 4 :: uint32)
      in if UseFixedLateAllocVsLimit cfg then targetLateAllocLimit cfg
         else if targetLateAllocLimit cfg > 0 \<and> vsNumSgpr > 0 \<and> vsNumVgpr > 0 then
           (let numCuForLateAllocVs =
                  (if gfx7LateAllocVsOnCuAlwaysOn cfg = True then numCuAlwaysOnPerSh chip
                   else numCuPerSh chip);
                simdPerSh = numCuForLateAllocVs * NumSimdPerCu cfg;
                maxSgprVsWaves = (numPhysicalSgprs chip div vsNumSgpr) * simdPerSh;
                maxVgprVsWaves = (numPhysicalVgprs chip div vsNumVgpr) * simdPerSh;
                maxVsWaves0 = min maxSgprVsWaves maxVgprVsWaves;
                maxVsWaves =
                  (if SPI_SHADER_PGM_RSRC2_VS_SCRATCH_EN_at registers \<noteq> 0 \<and>
                      SPI_SHADER_PGM_RSRC2_PS_SCRATCH_EN_at registers \<noteq> 0
                   then min maxVsWaves0 (numCuForLateAllocVs * numScratchWavesPerCu cfg)
                   else maxVsWaves0)
            in if maxVsWaves \<le> targetLateAllocLimit cfg
               then (if maxVsWaves > 1 then maxVsWaves - 1 else 1)
               else targetLateAllocLimit cfg)
         else 0)"

text \<open>
  The function, as the new value of \<^verbatim>\<open>m_regs.sh.spiShaderLateAllocVs\<close>. The calls
  on the uploader leave the register image alone.
\<close>

definition SetupLateAllocVs ::
  "GpuChipProperties \<Rightarrow> RegisterFieldWidths \<Rightarrow> LateAllocVsConfig \<Rightarrow> RegisterVector
     \<Rightarrow> regSPI_SHADER_LATE_ALLOC_VS \<Rightarrow> regSPI_SHADER_LATE_ALLOC_VS" where
  "SetupLateAllocVs chip widths cfg registers spiShaderLateAllocVs =
     (if gfxLevel chip \<noteq> GfxIp6 then
        (let maxLateAllocLimit = maxLateAllocVsLimit chip - 1;
             lateAllocLimit0 = computedLateAllocLimit chip cfg registers;
             lateAllocLimit = (if lateAllocLimit0 > 0 then lateAllocLimit0 - 1 else 0)
         in spiShaderLateAllocVs
              \<lparr>LIMIT := storeBitfield (LIMIT_width widths)
                          (uint (min lateAllocLimit maxLateAllocLimit))\<rparr>)
      else spiShaderLateAllocVs)"

text \<open>
  The constructor's \<^verbatim>\<open>memset(&m_regs, 0, sizeof(m_regs))\<close>, for this register.
\<close>

definition zero_SPI_SHADER_LATE_ALLOC_VS :: regSPI_SHADER_LATE_ALLOC_VS where
  "zero_SPI_SHADER_LATE_ALLOC_VS = \<lparr>LIMIT = 0\<rparr>"

subsection \<open>Example inputs\<close>

text \<open>
  A four-engine Gfx8 device, the field widths of its registers, and a binary that gives
  neither \<^verbatim>\<open>IA_MULTI_VGT_PARAM\<close> nor \<^verbatim>\<open>VGT_STRMOUT_CONFIG\<close>.
\<close>

definition exampleChip :: GpuChipProperties where
  "exampleChip =
     \<lparr>gfxLevel = GfxIp8, numSimdPerCu = 4, numWavesPerSimd = 10, maxNumCuPerSh = 16,
      numCuPerSh = 16, numCuAlwaysOnPerSh = 16, numShaderEngines = 4, gsVgtTableDepth = 32,
      numPhysicalSgprs = 800, numPhysicalVgprs = 256, maxLateAllocVsLimit = 64,
      rbPlus = True\<rparr>"

definition exampleWidths :: RegisterFieldWidths where
  "exampleWidths = \<lparr>PRIMGROUP_SIZE_width = 16, LIMIT_width = 6\<rparr>"

definition exampleRegisters :: RegisterVector where
  "exampleRegisters =
     \<lparr>IA_MULTI_VGT_PARAM_entry = None, VGT_STRMOUT_CONFIG_entry = None,
      SPI_SHADER_PGM_RSRC1_VS_at = \<lparr>SGPRS = 2, VGPRS = 3\<rparr>,
      SPI_SHADER_PGM_RSRC2_VS_SCRATCH_EN_at = 0,
      SPI_SHADER_PGM_RSRC2_PS_SCRATCH_EN_at = 0,
      CB_SHADER_MASK_at = 0xF\<rparr>"

definition exampleLateAllocCfg :: LateAllocVsConfig where
  "exampleLateAllocCfg =
     \<lparr>IsLateAllocVsLimit = False, GetLateAllocVsLimit = 0, DeviceLateAllocVsLimit = 31,
      UseFixedLateAllocVsLimit = False, gfx7LateAllocVsOnCuAlwaysOn = False,
      numScratchWavesPerCu = 32, NumSimdPerCu = 4\<rparr>"

definition exampleTessStages :: PipelineStages where
  "exampleTessStages = \<lparr>IsTessEnabled = True, IsGsEnabled = False, IsGsOnChip = False\<rparr>"

definition exampleVsPsStages :: PipelineStages where
  "exampleVsPsStages = \<lparr>IsTessEnabled = False, IsGsEnabled = False, IsGsOnChip = False\<rparr>"

subsection \<open>\<^verbatim>\<open>SetupSignatureForStageFromElf\<close>\<close>

datatype HwShaderStage = Ls | Hs | Es | Gs | Vs | Ps

text \<open>
  What the pipeline ABI and chip headers declare and the function uses: the threshold
  \<^verbatim>\<open>MaxUserDataEntries\<close>, the \<^verbatim>\<open>Abi::UserDataMapping\<close> enumerators, the
  first and last user-data register of each stage, and the two table start registers.
  The headers are not part of the sources, so they are parameters.
\<close>

record PipelineAbi =
  MaxUserDataEntries :: uint32
  GlobalTable :: uint32
  PerShaderTable :: uint32
  SpillTable :: uint32
  Workgroup :: uint32
  VertexBufferTable :: uint32
  StreamOutTable :: uint32
  BaseVertex :: uint32
  BaseInstance :: uint32
  DrawIndex :: uint32
  EsGsLdsSize :: uint32
  BaseIndex :: uint32
  Log2IndexSize :: uint32
  ViewId :: uint32
  BaseRegAddr :: "HwShaderStage \<Rightarrow> uint16"
  LastRegAddr :: "HwShaderStage \<Rightarrow> uint16"
  InternalTblStartReg :: uint32
  ConstBufTblStartReg :: uint32

text \<open>\<^verbatim>\<open>static_assert(UserDataNotMapped == 0, ...)\<close>.\<close>

definition UserDataNotMapped :: uint16 where
  "UserDataNotMapped = 0"

record UserDataEntryMap =
  mappedEntry :: "nat \<Rightarrow> uint8"
  userSgprCount :: uint8
  firstUserSgprRegAddr :: uint16
  spillTableRegAddr :: uint16

record GraphicsPipelineSignature =
  stage :: "HwShaderStage \<Rightarrow> UserDataEntryMap"
  vertexBufTableRegAddr :: uint16
  streamOutTableRegAddr :: uint16
  vertexOffsetRegAddr :: uint16
  drawIndexRegAddr :: uint16
  spillThreshold :: uint16
  userDataLimit :: uint16
  viewIdRegAddr :: "HwShaderStage \<Rightarrow> uint16"
  userDataHash :: "HwShaderStage \<Rightarrow> 64 word"

text \<open>
  \<^verbatim>\<open>NullGfxSignature\<close>, which the constructor copies into \<^verbatim>\<open>m_signature\<close>. The
  value of \<^verbatim>\<open>NoUserDataSpilling\<close> is declared elsewhere and is a parameter.
\<close>

definition NullGfxSignature :: "uint16 \<Rightarrow> GraphicsPipelineSignature" where
  "NullGfxSignature NoUserDataSpilling =
     \<lparr>stage = (\<lambda>s. \<lparr>mappedEntry = (\<lambda>i. 0), userSgprCount = 0,
                       firstUserSgprRegAddr = 0, spillTableRegAddr = 0\<rparr>),
      vertexBufTableRegAddr = UserDataNotMapped,
      streamOutTableRegAddr = UserDataNotMapped,
      vertexOffsetRegAddr = UserDataNotMapped,
      drawIndexRegAddr = UserDataNotMapped,
      spillThreshold = NoUserDataSpilling,
      userDataLimit = 0,
      viewIdRegAddr = (\<lambda>s. UserDataNotMapped),
      userDataHash = (\<lambda>s. 0)\<rparr>"

text \<open>
  The members of the pipeline metadata that the function reads. The array
  \<^verbatim>\<open>indirectUserDataTableAddresses\<close> is its element 0 and the elements after it.
\<close>

record PipelineMetadata =
  hasEntry_streamOutTableAddress :: bool
  streamOutTableAddress :: uint32
  hasEntry_indirectUserDataTableAddresses :: bool
  indirectUserDataTableAddresses_0 :: uint32
  indirectUserDataTableAddresses_rest :: "uint32 list"

text \<open>
  The assertions and alerts of the function, each with the register address at which it
  fired.
\<close>

datatype SignatureEvent =
    AssertMultipleIndirectTables
  | AssertIndirectTableStage uint16
  | AssertOffsetBelowFirst uint16
  | AssertGlobalTable uint16
  | AssertPerShaderTable uint16
  | AlertWorkgroup uint16
  | AssertVertexBufferTable uint16
  | AssertStreamOutTable uint16
  | AssertBaseVertex uint16
  | AssertBaseInstance uint16
  | AssertDrawIndex uint16
  | AlertGfx9Only uint16
  | NeverCalled uint16
  | AssertStreamOutTableSpilled
  | AssertIndirectTableSpilled

text \<open>
  The state the function works on: \<^verbatim>\<open>m_signature\<close>, the cell behind
  \<^verbatim>\<open>pEsGsLdsSizeReg\<close> (\<open>None\<close> for \<^verbatim>\<open>nullptr\<close>), and the assertions that
  failed and alerts that were raised so far, in order.
\<close>

record SignatureState =
  signature :: GraphicsPipelineSignature
  esGsLdsSizeReg :: "uint16 option"
  events :: "SignatureEvent list"

text \<open>What stays the same during one call.\<close>

record SignatureEnv =
  abi :: PipelineAbi
  userDataRegisters :: "uint16 \<Rightarrow> uint32 option"
  hwStage :: HwShaderStage
  streamOutTableEntryPlus1 :: uint16
  indirectTableEntryPlus1 :: uint16
  vbTableStage :: HwShaderStage

definition raise :: "bool \<Rightarrow> SignatureEvent \<Rightarrow> SignatureState \<Rightarrow> SignatureState" where
  "raise holds e st = (if holds then st else st\<lparr>events := events st @ [e]\<rparr>)"

definition updateSignature ::
  "(GraphicsPipelineSignature \<Rightarrow> GraphicsPipelineSignature) \<Rightarrow> SignatureState
     \<Rightarrow> SignatureState" where
  "updateSignature f st = st\<lparr>signature := f (signature st)\<rparr>"

text \<open>
  The body of the loop for a register that the binary maps (\<^verbatim>\<open>HasEntry\<close> gave
  \<open>value\<close>).
\<close>

definition SignatureEntry ::
  "SignatureEnv \<Rightarrow> uint16 \<Rightarrow> uint32 \<Rightarrow> SignatureState \<Rightarrow> SignatureState" where
  "SignatureEntry env offset value st =
     (let a = abi env; s = hwStage env; sig = signature st; pStage = stage sig s in
      if value + 1 = ucast (streamOutTableEntryPlus1 env) then
        (if s = Vs then updateSignature (\<lambda>g. g\<lparr>streamOutTableRegAddr := offset\<rparr>) st else st)
      else if value + 1 = ucast (indirectTableEntryPlus1 env) then
        raise (s = vbTableStage env) (AssertIndirectTableStage offset)
          (if s = vbTableStage env
           then updateSignature (\<lambda>g. g\<lparr>vertexBufTableRegAddr := offset\<rparr>) st else st)
      else if value < MaxUserDataEntries a then
        (let first = (if firstUserSgprRegAddr pStage = UserDataNotMapped then offset
                      else firstUserSgprRegAddr pStage);
             userSgprId = (ucast (offset - first) :: uint8);
             pStage' = pStage\<lparr>firstUserSgprRegAddr := first,
                              mappedEntry := (mappedEntry pStage)(unat userSgprId := ucast value),
                              userSgprCount := max (userSgprId + 1) (userSgprCount pStage)\<rparr>
         in raise (offset \<ge> first) (AssertOffsetBelowFirst offset)
              (updateSignature (\<lambda>g. g\<lparr>stage := (stage g)(s := pStage')\<rparr>) st))
      else if value = GlobalTable a then
        raise ((ucast offset :: uint32) = ucast (BaseRegAddr a s) + InternalTblStartReg a)
          (AssertGlobalTable offset) st
      else if value = PerShaderTable a then
        raise ((ucast offset :: uint32) = ucast (BaseRegAddr a s) + ConstBufTblStartReg a)
          (AssertPerShaderTable offset) st
      else if value = SpillTable a then
        updateSignature
          (\<lambda>g. g\<lparr>stage := (stage g)(s := (stage g s)\<lparr>spillTableRegAddr := offset\<rparr>)\<rparr>) st
      else if value = Workgroup a then
        raise False (AlertWorkgroup offset) st
      else if value = VertexBufferTable a then
        updateSignature (\<lambda>g. g\<lparr>vertexBufTableRegAddr := offset\<rparr>)
          (raise (vertexBufTableRegAddr sig = offset \<or>
                  vertexBufTableRegAddr sig = UserDataNotMapped)
             (AssertVertexBufferTable offset) st)
      else if value = StreamOutTable a then
        updateSignature (\<lambda>g. g\<lparr>streamOutTableRegAddr := offset\<rparr>)
          (raise (streamOutTableRegAddr sig = offset \<or>
                  streamOutTableRegAddr sig = UserDataNotMapped)
             (AssertStreamOutTable offset) st)
      else if value = BaseVertex a then
        updateSignature (\<lambda>g. g\<lparr>vertexOffsetRegAddr := offset\<rparr>)
          (raise (vertexOffsetRegAddr sig = offset \<or>
                  vertexOffsetRegAddr sig = UserDataNotMapped)
             (AssertBaseVertex offset) st)
      else if value = BaseInstance a then
        updateSignature (\<lambda>g. g\<lparr>vertexOffsetRegAddr := offset - 1\<rparr>)
          (raise (uint (vertexOffsetRegAddr sig) = uint offset - 1 \<or>
                  vertexOffsetRegAddr sig = UserDataNotMapped)
             (AssertBaseInstance offset) st)
      else if value = DrawIndex a then
        updateSignature (\<lambda>g. g\<lparr>drawIndexRegAddr := offset\<rparr>)
          (raise (drawIndexRegAddr sig = offset \<or>
                  drawIndexRegAddr sig = UserDataNotMapped)
             (AssertDrawIndex offset) st)
      else if value = EsGsLdsSize a \<and> esGsLdsSizeReg st \<noteq> None then
        st\<lparr>esGsLdsSizeReg := Some offset\<rparr>
      else if value = BaseIndex a \<or> value = Log2IndexSize a then
        raise False (AlertGfx9Only offset) st
      else if value = ViewId a then
        updateSignature (\<lambda>g. g\<lparr>viewIdRegAddr := (viewIdRegAddr g)(s := offset)\<rparr>) st
      else raise False (NeverCalled offset) st)"

text \<open>
  The loop \<^verbatim>\<open>for (uint16 offset = BaseRegAddr[stageId]; offset <= LastRegAddr[stageId];
  ++offset)\<close>. The counter is a \<^verbatim>\<open>uint16\<close>: were the last register \<open>0xFFFF\<close>,
  the counter would wrap and the loop would never end, which is the result \<open>None\<close>.
\<close>

function scanUserDataRegisters ::
  "SignatureEnv \<Rightarrow> uint16 \<Rightarrow> uint16 \<Rightarrow> SignatureState \<Rightarrow> SignatureState option" where
  "scanUserDataRegisters env offset lastAddr st =
     (if offset \<le> lastAddr then
        (let st' = (case userDataRegisters env offset of
                      None \<Rightarrow> st
                    | Some value \<Rightarrow> SignatureEntry env offset value st)
         in if offset = 0xFFFF then None
            else scanUserDataRegisters env (offset + 1) lastAddr st')
      else Some st)"
  by pat_completeness auto
termination
proof (relation "measure (\<lambda>(env, offset, lastAddr, st). Suc (unat lastAddr) - unat offset)")
  show "wf (measure (\<lambda>(env, offset, lastAddr, st). Suc (unat lastAddr) - unat offset))"
    by simp
next
  fix env :: SignatureEnv and offset lastAddr :: uint16 and st st' :: SignatureState
  assume le: "offset \<le> lastAddr" and ne: "offset \<noteq> 0xFFFF"
  have m: "(- 1 :: uint16) = 0xFFFF"
    by simp
  have "offset \<noteq> - 1"
    using ne unfolding m .
  then have "offset + 1 \<noteq> 0"
    by (simp add: add_eq_0_iff2)
  then have "unat (offset + 1) = Suc (unat offset)"
    by (metis unatSuc add.commute)
  moreover have "unat offset \<le> unat lastAddr"
    using le by (simp add: word_le_nat_alt)
  ultimately show "((env, offset + 1, lastAddr, st'), (env, offset, lastAddr, st))
      \<in> measure (\<lambda>(env, offset, lastAddr, st). Suc (unat lastAddr) - unat offset)"
    by simp
qed

declare scanUserDataRegisters.simps [simp del]

text \<open>
  The whole function for one stage. \<open>hash\<close> stands for \<^verbatim>\<open>MetroHash64::Hash\<close> over
  the stage's \<^verbatim>\<open>UserDataEntryMap\<close>.
\<close>

definition SetupSignatureForStageFromElf ::
  "PipelineAbi \<Rightarrow> (UserDataEntryMap \<Rightarrow> 64 word) \<Rightarrow> PipelineStages \<Rightarrow> PipelineMetadata
     \<Rightarrow> (uint16 \<Rightarrow> uint32 option) \<Rightarrow> HwShaderStage \<Rightarrow> SignatureState
     \<Rightarrow> SignatureState option" where
  "SetupSignatureForStageFromElf a hash stages metadata registers s st0 =
     (let so = (if hasEntry_streamOutTableAddress metadata = False then UserDataNotMapped
                else ucast (streamOutTableAddress metadata));
          it = (if hasEntry_indirectUserDataTableAddresses metadata = False
                then UserDataNotMapped
                else ucast (indirectUserDataTableAddresses_0 metadata));
          vb = (if IsTessEnabled stages then Ls else if IsGsEnabled stages then Es else Vs);
          st1 = (if hasEntry_indirectUserDataTableAddresses metadata
                 then raise (list_all (\<lambda>x. x = 0) (indirectUserDataTableAddresses_rest metadata))
                        AssertMultipleIndirectTables st0
                 else st0);
          env = \<lparr>abi = a, userDataRegisters = registers, hwStage = s,
                 streamOutTableEntryPlus1 = so, indirectTableEntryPlus1 = it,
                 vbTableStage = vb\<rparr>
      in case scanUserDataRegisters env (BaseRegAddr a s) (LastRegAddr a s) st1 of
           None \<Rightarrow> None
         | Some st2 \<Rightarrow>
             (let st3 = (if s = Vs \<and> streamOutTableRegAddr (signature st2) = UserDataNotMapped
                            \<and> so \<noteq> UserDataNotMapped
                         then raise (uint so - 1 < uint (spillThreshold (signature st2)))
                                AssertStreamOutTableSpilled st2
                         else st2);
                  st4 = (if s = vb \<and> vertexBufTableRegAddr (signature st3) = UserDataNotMapped
                            \<and> it \<noteq> UserDataNotMapped
                         then raise (uint it - 1 < uint (spillThreshold (signature st3)))
                                AssertIndirectTableSpilled st3
                         else st3)
              in Some (updateSignature
                         (\<lambda>g. g\<lparr>userDataHash := (userDataHash g)(s := hash (stage g s))\<rparr>)
                         st4)))"

text \<open>
  An instance of the ABI parameters, and a binary of a vertex-pixel pipeline whose only
  user-data register maps the base-instance role, at the third register of the vertex
  stage.
\<close>

definition exampleAbi :: PipelineAbi where
  "exampleAbi =
     \<lparr>MaxUserDataEntries = 128,
      GlobalTable = 0x10000000, PerShaderTable = 0x10000001, SpillTable = 0x10000002,
      Workgroup = 0x10000006, VertexBufferTable = 0x1000000F, StreamOutTable = 0x1000000C,
      BaseVertex = 0x10000003, BaseInstance = 0x10000004, DrawIndex = 0x10000005,
      EsGsLdsSize = 0x1000000A, BaseIndex = 0x10000008, Log2IndexSize = 0x10000009,
      ViewId = 0x1000000B,
      BaseRegAddr = (\<lambda>s. case s of Ls \<Rightarrow> 0x2D4C | Hs \<Rightarrow> 0x2D0C | Es \<Rightarrow> 0x2CCC
                               | Gs \<Rightarrow> 0x2C8C | Vs \<Rightarrow> 0x2C4C | Ps \<Rightarrow> 0x2C0C),
      LastRegAddr = (\<lambda>s. case s of Ls \<Rightarrow> 0x2D5B | Hs \<Rightarrow> 0x2D1B | Es \<Rightarrow> 0x2CDB
                               | Gs \<Rightarrow> 0x2C9B | Vs \<Rightarrow> 0x2C5B | Ps \<Rightarrow> 0x2C1B),
      InternalTblStartReg = 0, ConstBufTblStartReg = 1\<rparr>"

definition exampleMetadata :: PipelineMetadata where
  "exampleMetadata =
     \<lparr>hasEntry_streamOutTableAddress = False, streamOutTableAddress = 0,
      hasEntry_indirectUserDataTableAddresses = False,
      indirectUserDataTableAddresses_0 = 0, indirectUserDataTableAddresses_rest = [0, 0]\<rparr>"

definition baseInstanceOnlyRegisters :: "uint16 \<Rightarrow> uint32 option" where
  "baseInstanceOnlyRegisters r = (if r = 0x2C4E then Some 0x10000004 else None)"

definition initialSignatureState :: SignatureState where
  "initialSignatureState =
     \<lparr>signature = NullGfxSignature 0xFFFF, esGsLdsSizeReg = None, events = []\<rparr>"

subsection \<open>Command emission\<close>

text \<open>
  The caller's per-draw limits (\<^verbatim>\<open>DynamicGraphicsShaderInfos\<close>, one entry per API
  shader) and what the pipeline derives from them (\<^verbatim>\<open>DynamicStageInfos\<close>, one
  entry per hardware stage).
\<close>

record DynamicGraphicsShaderInfo =
  maxWavesPerCu :: uint32
  cuEnableMask :: uint32

record DynamicGraphicsShaderInfos =
  info_vs :: DynamicGraphicsShaderInfo
  info_hs :: DynamicGraphicsShaderInfo
  info_ds :: DynamicGraphicsShaderInfo
  info_gs :: DynamicGraphicsShaderInfo
  info_ps :: DynamicGraphicsShaderInfo

record DynamicStageInfo =
  wavesPerSh :: uint32
  stageCuEnableMask :: uint32

record DynamicStageInfos =
  stage_ps :: DynamicStageInfo
  stage_vs :: DynamicStageInfo
  stage_ls :: DynamicStageInfo
  stage_hs :: DynamicStageInfo
  stage_es :: DynamicStageInfo
  stage_gs :: DynamicStageInfo

definition CalcDynamicStageInfo ::
  "GpuChipProperties \<Rightarrow> DynamicGraphicsShaderInfo \<Rightarrow> DynamicStageInfo" where
  "CalcDynamicStageInfo chip shaderInfo =
     \<lparr>wavesPerSh = fst (CalcMaxWavesPerSh chip (maxWavesPerCu shaderInfo)),
      stageCuEnableMask = cuEnableMask shaderInfo\<rparr>"

text \<open>\<^verbatim>\<open>DynamicStageInfos stageInfos = {}\<close>.\<close>

definition zero_DynamicStageInfos :: DynamicStageInfos where
  "zero_DynamicStageInfos =
     (let z = \<lparr>wavesPerSh = 0, stageCuEnableMask = 0\<rparr>
      in \<lparr>stage_ps = z, stage_vs = z, stage_ls = z, stage_hs = z, stage_es = z,
          stage_gs = z\<rparr>)"

definition CalcDynamicStageInfos ::
  "GpuChipProperties \<Rightarrow> PipelineStages \<Rightarrow> DynamicGraphicsShaderInfos \<Rightarrow> DynamicStageInfos
     \<Rightarrow> DynamicStageInfos" where
  "CalcDynamicStageInfos chip stages graphicsInfo s0 =
     (if gfxLevelOrd (gfxLevel chip) \<ge> gfxLevelOrd GfxIp7 then
        (let s1 = s0\<lparr>stage_ps := CalcDynamicStageInfo chip (info_ps graphicsInfo)\<rparr>
         in if IsTessEnabled stages then
              (let s2 = s1\<lparr>stage_ls := CalcDynamicStageInfo chip (info_vs graphicsInfo),
                           stage_hs := CalcDynamicStageInfo chip (info_hs graphicsInfo)\<rparr>
               in if IsGsEnabled stages
                  then s2\<lparr>stage_es := CalcDynamicStageInfo chip (info_ds graphicsInfo),
                          stage_gs := CalcDynamicStageInfo chip (info_gs graphicsInfo)\<rparr>
                  else s2\<lparr>stage_vs := CalcDynamicStageInfo chip (info_ds graphicsInfo)\<rparr>)
            else if IsGsEnabled stages
              then s1\<lparr>stage_es := CalcDynamicStageInfo chip (info_vs graphicsInfo),
                      stage_gs := CalcDynamicStageInfo chip (info_gs graphicsInfo)\<rparr>
              else s1\<lparr>stage_vs := CalcDynamicStageInfo chip (info_vs graphicsInfo)\<rparr>)
      else s0)"

text \<open>\<^verbatim>\<open>m_loadPath\<close>: the LoadBlock of each register group.\<close>

record LoadPath =
  gpuVirtAddrCtx :: "64 word"
  countCtx :: uint32
  gpuVirtAddrSh :: "64 word"
  countSh :: uint32

text \<open>
  The context registers the pipeline itself writes, and their \<^verbatim>\<open>u32All\<close> values in
  \<^verbatim>\<open>m_regs.context\<close>.
\<close>

datatype ContextRegister =
    mmVGT_SHADER_STAGES_EN | mmVGT_GS_MODE | mmVGT_REUSE_OFF | mmVGT_TF_PARAM
  | mmCB_COLOR_CONTROL | mmCB_TARGET_MASK | mmCB_SHADER_MASK
  | mmPA_CL_CLIP_CNTL | mmPA_SU_VTX_CNTL | mmPA_CL_VTE_CNTL | mmPA_SC_LINE_CNTL
  | mmSPI_INTERP_CONTROL_0 | mmVGT_VERTEX_REUSE_BLOCK_CNTL | mmDB_SHADER_CONTROL
  | mmDB_ALPHA_TO_MASK | mmDB_RENDER_OVERRIDE

record ContextRegisterImage =
  vgtShaderStagesEn_u32All :: uint32
  vgtGsMode_u32All :: uint32
  vgtReuseOff_u32All :: uint32
  vgtTfParam_u32All :: uint32
  cbColorControl_u32All :: uint32
  cbTargetMask_u32All :: uint32
  cbShaderMask_u32All :: uint32
  paClClipCntl_u32All :: uint32
  paSuVtxCntl_u32All :: uint32
  paClVteCntl_u32All :: uint32
  paScLineCntl_u32All :: uint32
  spiInterpControl0_u32All :: uint32
  vgtVertexReuseBlockCntl_u32All :: uint32
  dbShaderControl_u32All :: uint32
  dbAlphaToMask_u32All :: uint32
  dbRenderOverride_u32All :: uint32

text \<open>
  What is written to the command stream. The commands of the three stage collaborators
  (\<^verbatim>\<open>m_chunkLsHs\<close>, \<^verbatim>\<open>m_chunkEsGs\<close>, \<^verbatim>\<open>m_chunkVsPs\<close>) are outside the
  sources: each call is one command here, with its template argument (\<open>True\<close> on the
  LOAD path) and its dynamic stage infos.
\<close>

datatype Pm4Command =
    WriteSetOneShReg_LATE_ALLOC_VS regSPI_SHADER_LATE_ALLOC_VS
  | BuildLoadShRegsIndex "64 word" uint32
  | ChunkLsHs_WriteShCommands bool DynamicStageInfo DynamicStageInfo
  | ChunkEsGs_WriteShCommands bool DynamicStageInfo DynamicStageInfo
  | ChunkVsPs_WriteShCommands bool DynamicStageInfo DynamicStageInfo
  | WriteSetOneContextReg ContextRegister uint32
  | WriteSetSeqContextRegs ContextRegister ContextRegister "uint32 list"
  | ChunkLsHs_WriteContextCommands bool
  | ChunkEsGs_WriteContextCommands bool
  | ChunkVsPs_WriteContextCommands bool
  | BuildLoadContextRegsIndex "64 word" uint32
  | WriteContextRegRmw ContextRegister uint32 uint32

text \<open>
  The functions return the commands they append at \<^verbatim>\<open>pCmdSpace\<close>. Of the command
  stream they read \<^verbatim>\<open>Pm4OptimizerEnabled()\<close>.
\<close>

definition WriteShCommands ::
  "GpuChipProperties \<Rightarrow> PipelineStages \<Rightarrow> LoadPath \<Rightarrow> regSPI_SHADER_LATE_ALLOC_VS \<Rightarrow> bool
     \<Rightarrow> DynamicGraphicsShaderInfos \<Rightarrow> Pm4Command list" where
  "WriteShCommands chip stages m_loadPath spiShaderLateAllocVs Pm4OptimizerEnabled graphicsInfo =
     (let stageInfos = CalcDynamicStageInfos chip stages graphicsInfo zero_DynamicStageInfos
      in if countSh m_loadPath = 0 \<or> Pm4OptimizerEnabled then
           (if gfxLevelOrd (gfxLevel chip) \<ge> gfxLevelOrd GfxIp7
            then [WriteSetOneShReg_LATE_ALLOC_VS spiShaderLateAllocVs] else [])
           @ (if IsTessEnabled stages
              then [ChunkLsHs_WriteShCommands False (stage_ls stageInfos) (stage_hs stageInfos)]
              else [])
           @ (if IsGsEnabled stages
              then [ChunkEsGs_WriteShCommands False (stage_es stageInfos) (stage_gs stageInfos)]
              else [])
           @ [ChunkVsPs_WriteShCommands False (stage_vs stageInfos) (stage_ps stageInfos)]
         else
           [BuildLoadShRegsIndex (gpuVirtAddrSh m_loadPath) (countSh m_loadPath)]
           @ (if IsTessEnabled stages
              then [ChunkLsHs_WriteShCommands True (stage_ls stageInfos) (stage_hs stageInfos)]
              else [])
           @ (if IsGsEnabled stages
              then [ChunkEsGs_WriteShCommands True (stage_es stageInfos) (stage_gs stageInfos)]
              else [])
           @ [ChunkVsPs_WriteShCommands True (stage_vs stageInfos) (stage_ps stageInfos)])"

definition WriteContextCommandsSetPath ::
  "bool \<Rightarrow> ContextRegisterImage \<Rightarrow> Pm4Command list" where
  "WriteContextCommandsSetPath WaDbOverRasterization c =
     [WriteSetOneContextReg mmVGT_SHADER_STAGES_EN (vgtShaderStagesEn_u32All c),
      WriteSetOneContextReg mmVGT_GS_MODE (vgtGsMode_u32All c),
      WriteSetOneContextReg mmVGT_REUSE_OFF (vgtReuseOff_u32All c),
      WriteSetOneContextReg mmVGT_TF_PARAM (vgtTfParam_u32All c),
      WriteSetOneContextReg mmCB_COLOR_CONTROL (cbColorControl_u32All c),
      WriteSetSeqContextRegs mmCB_TARGET_MASK mmCB_SHADER_MASK
        [cbTargetMask_u32All c, cbShaderMask_u32All c],
      WriteSetOneContextReg mmPA_CL_CLIP_CNTL (paClClipCntl_u32All c),
      WriteSetOneContextReg mmPA_SU_VTX_CNTL (paSuVtxCntl_u32All c),
      WriteSetOneContextReg mmPA_CL_VTE_CNTL (paClVteCntl_u32All c),
      WriteSetOneContextReg mmPA_SC_LINE_CNTL (paScLineCntl_u32All c),
      WriteSetOneContextReg mmSPI_INTERP_CONTROL_0 (spiInterpControl0_u32All c),
      WriteSetOneContextReg mmVGT_VERTEX_REUSE_BLOCK_CNTL (vgtVertexReuseBlockCntl_u32All c)]
     @ (if WaDbOverRasterization = False
        then [WriteSetOneContextReg mmDB_SHADER_CONTROL (dbShaderControl_u32All c)] else [])"

text \<open>
  The two masks of the read-modify-write commands are built from constants of the chip
  headers and are parameters.
\<close>

definition WriteContextCommands ::
  "uint32 \<Rightarrow> uint32 \<Rightarrow> bool \<Rightarrow> PipelineStages \<Rightarrow> LoadPath \<Rightarrow> ContextRegisterImage \<Rightarrow> bool
     \<Rightarrow> Pm4Command list" where
  "WriteContextCommands ALPHA_TO_MASK_ENABLE_MASK DbRenderOverrideRmwMask WaDbOverRasterization
       stages m_loadPath c Pm4OptimizerEnabled =
     (if countCtx m_loadPath = 0 \<or> Pm4OptimizerEnabled then
        WriteContextCommandsSetPath WaDbOverRasterization c
        @ (if IsTessEnabled stages then [ChunkLsHs_WriteContextCommands False] else [])
        @ (if IsGsEnabled stages then [ChunkEsGs_WriteContextCommands False] else [])
        @ [ChunkVsPs_WriteContextCommands False]
      else
        [BuildLoadContextRegsIndex (gpuVirtAddrCtx m_loadPath) (countCtx m_loadPath)])
     @ [WriteContextRegRmw mmDB_ALPHA_TO_MASK ALPHA_TO_MASK_ENABLE_MASK (dbAlphaToMask_u32All c),
        WriteContextRegRmw mmDB_RENDER_OVERRIDE DbRenderOverrideRmwMask
          (dbRenderOverride_u32All c)]"

text \<open>
  A command of the LOAD path: one that loads a register range from the LoadBlock, or a
  collaborator's call with the LOAD template argument.
\<close>

fun isLoadCommand :: "Pm4Command \<Rightarrow> bool" where
  "isLoadCommand (BuildLoadShRegsIndex a n) = True"
| "isLoadCommand (BuildLoadContextRegsIndex a n) = True"
| "isLoadCommand (ChunkLsHs_WriteShCommands l x y) = l"
| "isLoadCommand (ChunkEsGs_WriteShCommands l x y) = l"
| "isLoadCommand (ChunkVsPs_WriteShCommands l x y) = l"
| "isLoadCommand (ChunkLsHs_WriteContextCommands l) = l"
| "isLoadCommand (ChunkEsGs_WriteContextCommands l) = l"
| "isLoadCommand (ChunkVsPs_WriteContextCommands l) = l"
| "isLoadCommand (WriteSetOneShReg_LATE_ALLOC_VS r) = False"
| "isLoadCommand (WriteSetOneContextReg r v) = False"
| "isLoadCommand (WriteSetSeqContextRegs r q vs) = False"
| "isLoadCommand (WriteContextRegRmw r m v) = False"

text \<open>
  A command of the SET path: an inline write of register values, or a collaborator's
  call with the SET template argument. The two read-modify-write commands belong to
  neither path.
\<close>

fun isSetPathCommand :: "Pm4Command \<Rightarrow> bool" where
  "isSetPathCommand (WriteSetOneShReg_LATE_ALLOC_VS r) = True"
| "isSetPathCommand (WriteSetOneContextReg r v) = True"
| "isSetPathCommand (WriteSetSeqContextRegs r q vs) = True"
| "isSetPathCommand (ChunkLsHs_WriteShCommands l x y) = (\<not> l)"
| "isSetPathCommand (ChunkEsGs_WriteShCommands l x y) = (\<not> l)"
| "isSetPathCommand (ChunkVsPs_WriteShCommands l x y) = (\<not> l)"
| "isSetPathCommand (ChunkLsHs_WriteContextCommands l) = (\<not> l)"
| "isSetPathCommand (ChunkEsGs_WriteContextCommands l) = (\<not> l)"
| "isSetPathCommand (ChunkVsPs_WriteContextCommands l) = (\<not> l)"
| "isSetPathCommand (BuildLoadShRegsIndex a n) = False"
| "isSetPathCommand (BuildLoadContextRegsIndex a n) = False"
| "isSetPathCommand (WriteContextRegRmw r m v) = False"

text \<open>A LoadBlock compiled for both groups, and an empty one.\<close>

definition exampleLoadPath :: LoadPath where
  "exampleLoadPath =
     \<lparr>gpuVirtAddrCtx = 0x1000, countCtx = 14, gpuVirtAddrSh = 0x2000, countSh = 1\<rparr>"

definition exampleGraphicsInfo :: DynamicGraphicsShaderInfos where
  "exampleGraphicsInfo =
     (let z = \<lparr>maxWavesPerCu = 0, cuEnableMask = 0xFFFF\<rparr>
      in \<lparr>info_vs = z, info_hs = z, info_ds = z, info_gs = z, info_ps = z\<rparr>)"

subsection \<open>\<^verbatim>\<open>EarlyInit\<close> and the LoadBlock of \<^verbatim>\<open>HwlInit\<close>\<close>

definition BaseLoadedShRegCount :: uint32 where
  "BaseLoadedShRegCount = 1"

definition BaseLoadedCntxRegCount :: uint32 where
  "BaseLoadedCntxRegCount = 1 + 1 + 1 + 1 + 1 + 1 + 1 + 1 + 1 + 1 + 1 + 1 + 1 + 1"

text \<open>
  The members of \<^verbatim>\<open>GraphicsPipelineLoadInfo\<close> that \<^verbatim>\<open>EarlyInit\<close> itself assigns.
  (The signature builder, called from \<^verbatim>\<open>EarlyInit\<close>, writes the two
  \<^verbatim>\<open>esGsLdsSizeReg\<close> members; it does not touch these.)
\<close>

record GraphicsPipelineLoadInfo =
  loadedShRegCount :: uint32
  loadedCtxRegCount :: uint32
  usesOnchipTess :: bool
  usesGs :: bool
  usesOnChipGs :: bool

text \<open>\<^verbatim>\<open>GraphicsPipelineLoadInfo loadInfo = { }\<close>.\<close>

definition zero_GraphicsPipelineLoadInfo :: GraphicsPipelineLoadInfo where
  "zero_GraphicsPipelineLoadInfo =
     \<lparr>loadedShRegCount = 0, loadedCtxRegCount = 0, usesOnchipTess = False, usesGs = False,
      usesOnChipGs = False\<rparr>"

text \<open>
  What \<^verbatim>\<open>EarlyInit\<close> reads: the setting, and from the binary's registers which stages
  \<^verbatim>\<open>VGT_SHADER_STAGES_EN\<close> enables, its \<^verbatim>\<open>DYNAMIC_HS\<close> field, whether
  \<^verbatim>\<open>VGT_GS_MODE\<close> selects the on-chip mode, and \<^verbatim>\<open>NUM_DS_WAVES_PER_SIMD\<close> of
  \<^verbatim>\<open>VGT_TF_PARAM\<close>.
\<close>

record EarlyInitInputs =
  enableLoadIndexForObjectBinds :: bool
  stagesEn_IsTessEnabled :: bool
  stagesEn_IsGsEnabled :: bool
  stagesEn_DYNAMIC_HS :: nat
  gsMode_ONCHIP_is_VgtGsModeOnchip :: bool
  tfParam_NUM_DS_WAVES_PER_SIMD :: nat

text \<open>
  The \<^verbatim>\<open>EarlyInit\<close> of the three stage collaborators, which are outside the sources:
  each may change the load info it is given.
\<close>

record StageCollaborators =
  chunkLsHs_EarlyInit :: "GraphicsPipelineLoadInfo \<Rightarrow> GraphicsPipelineLoadInfo"
  chunkEsGs_EarlyInit :: "GraphicsPipelineLoadInfo \<Rightarrow> GraphicsPipelineLoadInfo"
  chunkVsPs_EarlyInit :: "GraphicsPipelineLoadInfo \<Rightarrow> GraphicsPipelineLoadInfo"

text \<open>
  The result: the active stages, the load info, and whether the closing
  \<^verbatim>\<open>PAL_ASSERT\<close> on the two counts held.
\<close>

definition EarlyInit ::
  "EarlyInitInputs \<Rightarrow> StageCollaborators \<Rightarrow> GraphicsPipelineLoadInfo
     \<Rightarrow> PipelineStages \<times> GraphicsPipelineLoadInfo \<times> bool" where
  "EarlyInit inp chunks pInfo =
     (let stages =
            \<lparr>IsTessEnabled = stagesEn_IsTessEnabled inp,
             IsGsEnabled = stagesEn_IsGsEnabled inp,
             IsGsOnChip = (stagesEn_IsGsEnabled inp \<and> gsMode_ONCHIP_is_VgtGsModeOnchip inp)\<rparr>;
          p1 = (if enableLoadIndexForObjectBinds inp \<noteq> False
                then pInfo\<lparr>loadedShRegCount := BaseLoadedShRegCount,
                           loadedCtxRegCount := BaseLoadedCntxRegCount\<rparr>
                else pInfo);
          p2 = (if IsTessEnabled stages \<and>
                   (stagesEn_DYNAMIC_HS inp = 0 \<or> tfParam_NUM_DS_WAVES_PER_SIMD inp > 0)
                then p1\<lparr>usesOnchipTess := True\<rparr> else p1);
          p3 = p2\<lparr>usesGs := IsGsEnabled stages, usesOnChipGs := IsGsOnChip stages\<rparr>;
          p4 = (if IsTessEnabled stages then chunkLsHs_EarlyInit chunks p3 else p3);
          p5 = (if IsGsEnabled stages then chunkEsGs_EarlyInit chunks p4 else p4);
          p6 = chunkVsPs_EarlyInit chunks p5;
          a = (if enableLoadIndexForObjectBinds inp \<noteq> False
               then loadedShRegCount p6 \<noteq> 0 \<and> loadedCtxRegCount p6 \<noteq> 0
               else loadedShRegCount p6 = 0 \<and> loadedCtxRegCount p6 = 0)
      in (stages, p6, a))"

datatype Result = Success | Error nat

text \<open>
  Modelled from the spec: \<^verbatim>\<open>GraphicsPipelineUploader\<close> is declared outside the
  sources. The spec (Compilation Orchestration) has the upload transaction "sized from
  the planner's preload budgets", and a LoadBlock is "a contiguous register range plus
  its element count": the uploader reports, for each group, the count it was
  constructed with.
\<close>

record GraphicsPipelineUploader =
  CtxRegisterCount :: uint32
  ShRegisterCount :: uint32

definition new_GraphicsPipelineUploader :: "uint32 \<Rightarrow> uint32 \<Rightarrow> GraphicsPipelineUploader" where
  "new_GraphicsPipelineUploader ctxRegisterCount shRegisterCount =
     \<lparr>CtxRegisterCount = ctxRegisterCount, ShRegisterCount = shRegisterCount\<rparr>"

text \<open>
  What the collaborators of \<^verbatim>\<open>HwlInit\<close> return: the results of unpacking the
  metadata, of the upload and of ending it, whether the uploader enables the load-index
  path, and the GPU addresses it assigns.
\<close>

record HwlInitOutcomes =
  unpackResult :: Result
  uploadResult :: Result
  EnableLoadIndexPath :: bool
  CtxRegGpuVirtAddr :: "64 word"
  ShRegGpuVirtAddr :: "64 word"
  endResult :: Result

text \<open>The constructor's \<^verbatim>\<open>memset(&m_loadPath, 0, sizeof(m_loadPath))\<close>.\<close>

definition zero_LoadPath :: LoadPath where
  "zero_LoadPath = \<lparr>gpuVirtAddrCtx = 0, countCtx = 0, gpuVirtAddrSh = 0, countSh = 0\<rparr>"

text \<open>
  \<^verbatim>\<open>HwlInit\<close>, as far as \<^verbatim>\<open>m_loadPath\<close> goes: its result up to
  \<^verbatim>\<open>uploader.End()\<close>, and \<^verbatim>\<open>m_loadPath\<close>. The register setup in between writes
  \<^verbatim>\<open>m_regs\<close> and adds registers to the uploader's block.
\<close>

definition HwlInit_loadPath ::
  "HwlInitOutcomes \<Rightarrow> EarlyInitInputs \<Rightarrow> StageCollaborators \<Rightarrow> Result \<times> LoadPath" where
  "HwlInit_loadPath out inp chunks =
     (if unpackResult out = Success then
        (let loadInfo = fst (snd (EarlyInit inp chunks zero_GraphicsPipelineLoadInfo));
             uploader = new_GraphicsPipelineUploader (loadedCtxRegCount loadInfo)
                          (loadedShRegCount loadInfo)
         in if uploadResult out = Success then
              (endResult out,
               if EnableLoadIndexPath out
               then \<lparr>gpuVirtAddrCtx = CtxRegGpuVirtAddr out,
                     countCtx = CtxRegisterCount uploader,
                     gpuVirtAddrSh = ShRegGpuVirtAddr out,
                     countSh = ShRegisterCount uploader\<rparr>
               else zero_LoadPath)
            else (uploadResult out, zero_LoadPath))
      else (unpackResult out, zero_LoadPath))"

text \<open>
  Modelled from the spec: the \<^verbatim>\<open>EarlyInit\<close> of the stage collaborators is
  declared outside the sources. The spec (Activation Planner) has "if device settings
  enable register preloading, requests a non-zero preload budget for both shared and
  per-stage register groups; otherwise both are zero", and has each stage collaborator
  "derive its own register subset": with preloading enabled a stage adds the number of
  registers of its own subset to the budget of each group (\<open>uint32\<close> additions), and
  with preloading disabled it adds nothing.
\<close>

record StagePreload =
  stageShRegCount :: uint32
  stageCtxRegCount :: uint32

definition chunk_EarlyInit ::
  "bool \<Rightarrow> StagePreload \<Rightarrow> GraphicsPipelineLoadInfo \<Rightarrow> GraphicsPipelineLoadInfo" where
  "chunk_EarlyInit enableLoadIndex own pInfo =
     (if enableLoadIndex \<noteq> False
      then pInfo\<lparr>loadedShRegCount := loadedShRegCount pInfo + stageShRegCount own,
                 loadedCtxRegCount := loadedCtxRegCount pInfo + stageCtxRegCount own\<rparr>
      else pInfo)"

definition stageCollaborators ::
  "bool \<Rightarrow> StagePreload \<Rightarrow> StagePreload \<Rightarrow> StagePreload \<Rightarrow> StageCollaborators" where
  "stageCollaborators enableLoadIndex lsHs esGs vsPs =
     \<lparr>chunkLsHs_EarlyInit = chunk_EarlyInit enableLoadIndex lsHs,
      chunkEsGs_EarlyInit = chunk_EarlyInit enableLoadIndex esGs,
      chunkVsPs_EarlyInit = chunk_EarlyInit enableLoadIndex vsPs\<rparr>"

text \<open>
  The register subsets of three stage collaborators, a pipeline of a vertex and a pixel
  stage with preloading enabled, the same with preloading disabled, and a compilation in
  which every step succeeds.
\<close>

definition exampleLsHsPreload :: StagePreload where
  "exampleLsHsPreload = \<lparr>stageShRegCount = 6, stageCtxRegCount = 1\<rparr>"

definition exampleEsGsPreload :: StagePreload where
  "exampleEsGsPreload = \<lparr>stageShRegCount = 8, stageCtxRegCount = 0\<rparr>"

definition exampleVsPsPreload :: StagePreload where
  "exampleVsPsPreload = \<lparr>stageShRegCount = 3, stageCtxRegCount = 5\<rparr>"

definition exampleEarlyInitInputs :: EarlyInitInputs where
  "exampleEarlyInitInputs =
     \<lparr>enableLoadIndexForObjectBinds = True, stagesEn_IsTessEnabled = False,
      stagesEn_IsGsEnabled = False, stagesEn_DYNAMIC_HS = 0,
      gsMode_ONCHIP_is_VgtGsModeOnchip = False, tfParam_NUM_DS_WAVES_PER_SIMD = 0\<rparr>"

definition exampleNoPreloadInputs :: EarlyInitInputs where
  "exampleNoPreloadInputs =
     \<lparr>enableLoadIndexForObjectBinds = False, stagesEn_IsTessEnabled = False,
      stagesEn_IsGsEnabled = False, stagesEn_DYNAMIC_HS = 0,
      gsMode_ONCHIP_is_VgtGsModeOnchip = False, tfParam_NUM_DS_WAVES_PER_SIMD = 0\<rparr>"

definition exampleOutcomes :: HwlInitOutcomes where
  "exampleOutcomes =
     \<lparr>unpackResult = Success, uploadResult = Success, EnableLoadIndexPath = True,
      CtxRegGpuVirtAddr = 0x1000, ShRegGpuVirtAddr = 0x2000, endResult = Success\<rparr>"

subsection \<open>\<^verbatim>\<open>SetupNonShaderRegisters\<close>\<close>

text \<open>
  \<^verbatim>\<open>LogicOp\<close>, in the order in which \<^verbatim>\<open>Rop3Codes\<close> lists the enumerators, and
  the table itself.
\<close>

datatype LogicOp =
    LogicOp_Copy | LogicOp_Clear | LogicOp_And | LogicOp_AndReverse | LogicOp_AndInverted
  | LogicOp_Noop | LogicOp_Xor | LogicOp_Or | LogicOp_Nor | LogicOp_Equiv | LogicOp_Invert
  | LogicOp_OrReverse | LogicOp_CopyInverted | LogicOp_OrInverted | LogicOp_Nand
  | LogicOp_Set

fun LogicOp_uint32 :: "LogicOp \<Rightarrow> nat" where
  "LogicOp_uint32 LogicOp_Copy = 0"
| "LogicOp_uint32 LogicOp_Clear = 1"
| "LogicOp_uint32 LogicOp_And = 2"
| "LogicOp_uint32 LogicOp_AndReverse = 3"
| "LogicOp_uint32 LogicOp_AndInverted = 4"
| "LogicOp_uint32 LogicOp_Noop = 5"
| "LogicOp_uint32 LogicOp_Xor = 6"
| "LogicOp_uint32 LogicOp_Or = 7"
| "LogicOp_uint32 LogicOp_Nor = 8"
| "LogicOp_uint32 LogicOp_Equiv = 9"
| "LogicOp_uint32 LogicOp_Invert = 10"
| "LogicOp_uint32 LogicOp_OrReverse = 11"
| "LogicOp_uint32 LogicOp_CopyInverted = 12"
| "LogicOp_uint32 LogicOp_OrInverted = 13"
| "LogicOp_uint32 LogicOp_Nand = 14"
| "LogicOp_uint32 LogicOp_Set = 15"

definition Rop3Codes :: "uint8 list" where
  "Rop3Codes =
     [0xCC, 0x00, 0x88, 0x44, 0x22, 0xAA, 0x66, 0xEE,
      0x11, 0x99, 0x55, 0xDD, 0x33, 0xBB, 0x77, 0xFF]"

definition Rop3 :: "LogicOp \<Rightarrow> uint8" where
  "Rop3 logicOp = Rop3Codes ! LogicOp_uint32 logicOp"

text \<open>The values of \<^verbatim>\<open>CB_COLOR_CONTROL.MODE\<close> that the function assigns.\<close>

datatype CB_MODE =
    CB_DISABLE | CB_NORMAL | CB_ELIMINATE_FAST_CLEAR | CB_RESOLVE | CB_FMASK_DECOMPRESS
  | CB_DCC_DECOMPRESS_VI

record regCB_COLOR_CONTROL =
  MODE :: CB_MODE
  ROP3 :: uint8
  DISABLE_DUAL_QUAD_VI :: nat

record regPA_SC_LINE_CNTL =
  EXPAND_LINE_WIDTH :: nat
  DX10_DIAMOND_TEST_ENA :: nat
  LAST_PIXEL :: nat
  PERPENDICULAR_ENDCAP_ENA :: nat

text \<open>
  The part of \<^verbatim>\<open>m_regs.context\<close> that the function writes. \<^verbatim>\<open>CB_SHADER_MASK\<close> and
  \<^verbatim>\<open>CB_TARGET_MASK\<close> hold four bits for each render target, target 0 in the lowest
  four.
\<close>

record NonShaderRegisters =
  paScLineCntl :: regPA_SC_LINE_CNTL
  cbShaderMask :: uint32
  cbTargetMask :: uint32
  cbColorControl :: regCB_COLOR_CONTROL
  dbAlphaToMask_ALPHA_TO_MASK_ENABLE :: nat
  sx :: SxRegisters

text \<open>The members of the create info that the function reads.\<close>

record ColorTargetInfo =
  channelWriteMask :: uint8
  swizzledFormat_format :: ChNumFormat

record GraphicsPipelineCreateInfo =
  expandLineWidth :: bool
  rasterizeLastLinePixel :: bool
  perpLineEndCapsEnable :: bool
  target :: "nat \<Rightarrow> ColorTargetInfo"
  logicOp :: LogicOp
  dualSourceBlendEnable :: bool
  alphaToCoverageEnable :: bool

text \<open>
  \<^verbatim>\<open>IsFastClearEliminate()\<close>, \<^verbatim>\<open>IsFmaskDecompress()\<close>, \<^verbatim>\<open>IsDccDecompress()\<close>,
  \<^verbatim>\<open>IsResolveFixedFunc()\<close> and \<^verbatim>\<open>IsInternal()\<close> of the pipeline.
\<close>

record PipelineKind =
  IsFastClearEliminate :: bool
  IsFmaskDecompress :: bool
  IsDccDecompress :: bool
  IsResolveFixedFunc :: bool
  IsInternal :: bool

text \<open>The loop that gathers the client's write masks into \<^verbatim>\<open>CB_TARGET_MASK\<close>.\<close>

fun cbTargetMaskLoop :: "(nat \<Rightarrow> ColorTargetInfo) \<Rightarrow> nat list \<Rightarrow> uint32 \<Rightarrow> uint32" where
  "cbTargetMaskLoop t [] m = m"
| "cbTargetMaskLoop t (rt # rest) m =
     cbTargetMaskLoop t rest
       (m OR push_bit (rt * 4) (ucast (channelWriteMask (t rt) AND 0xF)))"

text \<open>The registers when the chain over the special pipeline kinds starts.\<close>

definition nonShaderRegistersBeforeColorMode ::
  "GraphicsPipelineCreateInfo \<Rightarrow> RegisterVector \<Rightarrow> NonShaderRegisters \<Rightarrow> NonShaderRegisters"
  where
  "nonShaderRegistersBeforeColorMode createInfo registers r0 =
     r0\<lparr>paScLineCntl :=
          (paScLineCntl r0)
            \<lparr>EXPAND_LINE_WIDTH := of_bool (expandLineWidth createInfo),
             DX10_DIAMOND_TEST_ENA := 1,
             LAST_PIXEL := of_bool (rasterizeLastLinePixel createInfo),
             PERPENDICULAR_ENDCAP_ENA := of_bool (perpLineEndCapsEnable createInfo)\<rparr>,
        cbShaderMask := CB_SHADER_MASK_at registers,
        cbTargetMask :=
          cbTargetMaskLoop (target createInfo) [0 ..< MaxColorTargets] (cbTargetMask r0)\<rparr>"

text \<open>
  The chain \<^verbatim>\<open>if (IsFastClearEliminate()) ... else if ... else\<close>: six branches, the
  first whose test holds is taken.
\<close>

definition colorModeChain ::
  "PipelineKind \<Rightarrow> LogicOp \<Rightarrow> NonShaderRegisters \<Rightarrow> NonShaderRegisters" where
  "colorModeChain kind clientLogicOp r =
     (if IsFastClearEliminate kind then
        r\<lparr>cbColorControl :=
             (cbColorControl r)\<lparr>MODE := CB_ELIMINATE_FAST_CLEAR, ROP3 := Rop3 LogicOp_Copy\<rparr>,
          cbShaderMask := 0xF, cbTargetMask := 0xF\<rparr>
      else if IsFmaskDecompress kind then
        r\<lparr>cbColorControl :=
             (cbColorControl r)\<lparr>MODE := CB_FMASK_DECOMPRESS, ROP3 := Rop3 LogicOp_Copy\<rparr>,
          cbShaderMask := 0xF, cbTargetMask := 0xF\<rparr>
      else if IsDccDecompress kind then
        r\<lparr>cbColorControl :=
             (cbColorControl r)\<lparr>MODE := CB_DCC_DECOMPRESS_VI, ROP3 := Rop3 LogicOp_Copy\<rparr>,
          cbShaderMask := 0xF, cbTargetMask := 0xF\<rparr>
      else if IsResolveFixedFunc kind then
        r\<lparr>cbColorControl :=
             (cbColorControl r)\<lparr>MODE := CB_RESOLVE, ROP3 := Rop3 LogicOp_Copy\<rparr>,
          cbShaderMask := (cbShaderMask r AND NOT 0xF) OR 0xF,
          cbTargetMask := (cbTargetMask r AND NOT 0xF) OR 0xF\<rparr>
      else if cbShaderMask r = 0 \<or> cbTargetMask r = 0 then
        r\<lparr>cbColorControl := (cbColorControl r)\<lparr>MODE := CB_DISABLE\<rparr>\<rparr>
      else
        r\<lparr>cbColorControl :=
             (cbColorControl r)\<lparr>MODE := CB_NORMAL, ROP3 := Rop3 clientLogicOp\<rparr>\<rparr>)"

text \<open>
  The loop over the slots that sets up RB+; the flag stays \<open>True\<close> while no assertion
  fires.
\<close>

fun rbPlusSlotsLoop ::
  "SxRegisterHeader \<Rightarrow> (nat \<Rightarrow> ColorTargetInfo) \<Rightarrow> nat list \<Rightarrow> SxRegisters \<times> bool
     \<Rightarrow> SxRegisters \<times> bool" where
  "rbPlusSlotsLoop hdr t [] acc = acc"
| "rbPlusSlotsLoop hdr t (slot # rest) (regs, ok) =
     (let (regs', fired) =
            SetupRbPlusRegistersForSlot hdr (word_of_nat slot) (channelWriteMask (t slot))
              (swizzledFormat_format (t slot)) regs
      in rbPlusSlotsLoop hdr t rest (regs', ok \<and> \<not> fired))"

text \<open>
  The function: the new registers, whether every assertion held, and whether the alert
  of the dual-source fallback was raised. The calls on the uploader at the end leave the
  registers alone. \<open>tossPointAfterPs\<close> is the test
  \<^verbatim>\<open>Settings().tossPointMode == TossPointAfterPs\<close>.
\<close>

definition SetupNonShaderRegisters ::
  "GpuChipProperties \<Rightarrow> SxRegisterHeader \<Rightarrow> bool \<Rightarrow> bool \<Rightarrow> PipelineKind
     \<Rightarrow> GraphicsPipelineCreateInfo \<Rightarrow> RegisterVector \<Rightarrow> NonShaderRegisters
     \<Rightarrow> NonShaderRegisters \<times> bool \<times> bool" where
  "SetupNonShaderRegisters chip hdr gfx8RbPlusEnable tossPointAfterPs kind createInfo registers r0 =
     (let r1 = nonShaderRegistersBeforeColorMode createInfo registers r0;
          r2 = colorModeChain kind (logicOp createInfo) r1;
          alert = (dualSourceBlendEnable createInfo \<and>
                   (cbShaderMask r2 AND 0x0F = 0 \<or> cbShaderMask r2 AND 0xF0 = 0));
          r3 = (if alert then r2\<lparr>cbColorControl := (cbColorControl r2)\<lparr>MODE := CB_DISABLE\<rparr>\<rparr>
                else r2);
          r4 = r3\<lparr>dbAlphaToMask_ALPHA_TO_MASK_ENABLE :=
                     of_bool (alphaToCoverageEnable createInfo)\<rparr>;
          (r5, ok) =
            (if gfx8RbPlusEnable \<and> dualSourceBlendEnable createInfo = False \<and>
                MODE (cbColorControl r4) \<noteq> CB_RESOLVE then
               (let (s, sok) = rbPlusSlotsLoop hdr (target createInfo) [0 ..< MaxColorTargets]
                                 (sx r4, True)
                in (r4\<lparr>cbColorControl := (cbColorControl r4)\<lparr>DISABLE_DUAL_QUAD_VI := 0\<rparr>,
                       sx := s\<rparr>,
                    rbPlus chip \<and> sok))
             else if rbPlus chip \<noteq> False then
               (r4\<lparr>cbColorControl := (cbColorControl r4)\<lparr>DISABLE_DUAL_QUAD_VI := 1\<rparr>\<rparr>, True)
             else (r4, True));
          r6 = (if IsInternal kind = False \<and> tossPointAfterPs
                then r5\<lparr>cbTargetMask := 0\<rparr> else r5)
      in (r6, ok, alert))"

text \<open>The constructor's \<^verbatim>\<open>memset(&m_regs, 0, sizeof(m_regs))\<close>, for these registers.\<close>

definition zero_NonShaderRegisters :: NonShaderRegisters where
  "zero_NonShaderRegisters =
     \<lparr>paScLineCntl = \<lparr>EXPAND_LINE_WIDTH = 0, DX10_DIAMOND_TEST_ENA = 0, LAST_PIXEL = 0,
                      PERPENDICULAR_ENDCAP_ENA = 0\<rparr>,
      cbShaderMask = 0, cbTargetMask = 0,
      cbColorControl = \<lparr>MODE = CB_DISABLE, ROP3 = 0, DISABLE_DUAL_QUAD_VI = 0\<rparr>,
      dbAlphaToMask_ALPHA_TO_MASK_ENABLE = 0,
      sx = \<lparr>sxPsDownconvert = 0, sxBlendOptEpsilon = 0, sxBlendOptControl = 0\<rparr>\<rparr>"

text \<open>
  An ordinary pipeline (none of the special kinds) whose client enables only the red
  channel of target 0, with logic op copy and RB+ switched off.
\<close>

definition exampleNormalKind :: PipelineKind where
  "exampleNormalKind =
     \<lparr>IsFastClearEliminate = False, IsFmaskDecompress = False, IsDccDecompress = False,
      IsResolveFixedFunc = False, IsInternal = False\<rparr>"

definition exampleRedOnlyCreateInfo :: GraphicsPipelineCreateInfo where
  "exampleRedOnlyCreateInfo =
     \<lparr>expandLineWidth = False, rasterizeLastLinePixel = False, perpLineEndCapsEnable = False,
      target = (\<lambda>rt. \<lparr>channelWriteMask = (if rt = 0 then 0x1 else 0),
                       swizzledFormat_format = X8Y8Z8W8_Unorm\<rparr>),
      logicOp = LogicOp_Copy, dualSourceBlendEnable = False,
      alphaToCoverageEnable = False\<rparr>"

definition exampleSxHeader :: SxRegisterHeader where
  "exampleSxHeader =
     \<lparr>SxFormatCode = (\<lambda>f. case f of
          SX_RT_EXPORT_NO_CONVERSION \<Rightarrow> 0 | SX_RT_EXPORT_32_R \<Rightarrow> 1 | SX_RT_EXPORT_32_A \<Rightarrow> 2
        | SX_RT_EXPORT_10_11_11 \<Rightarrow> 3 | SX_RT_EXPORT_2_10_10_10 \<Rightarrow> 4
        | SX_RT_EXPORT_8_8_8_8 \<Rightarrow> 5 | SX_RT_EXPORT_5_6_5 \<Rightarrow> 6 | SX_RT_EXPORT_1_5_5_5 \<Rightarrow> 7
        | SX_RT_EXPORT_4_4_4_4 \<Rightarrow> 8 | SX_RT_EXPORT_16_16_GR \<Rightarrow> 9
        | SX_RT_EXPORT_16_16_AR \<Rightarrow> 10),
      SX_PS_DOWNCONVERT__MRT0_MASK = 0xF,
      SX_BLEND_OPT_EPSILON__MRT0_EPSILON_MASK = 0xF,
      SX_BLEND_OPT_CONTROL__MRT0_COLOR_OPT_DISABLE_MASK = 0x1,
      SX_BLEND_OPT_CONTROL__MRT0_ALPHA_OPT_DISABLE_MASK = 0x2\<rparr>"

section \<open>Properties\<close>

subsection \<open>Out-of-order primitives\<close>

text \<open>
  C1. Whatever the depth-stencil view, depth-stencil state, blend state and number of
  active queries: in mode Always the function returns true; in mode Disabled, and for
  every unrecognized value of the mode, it returns false; in mode Safe with no
  depth-stencil view bound it returns false.
\<close>

theorem CanDrawPrimsOutOfOrder_modes:
  "CanDrawPrimsOutOfOrder p pDsView pDepthStencilState pBlendState hasActiveQueries
     OutOfOrderPrimAlways = True
   \<and> CanDrawPrimsOutOfOrder p pDsView pDepthStencilState pBlendState hasActiveQueries
     OutOfOrderPrimDisable = False
   \<and> CanDrawPrimsOutOfOrder p pDsView pDepthStencilState pBlendState hasActiveQueries
     (OutOfOrderPrimUnrecognized v) = False
   \<and> CanDrawPrimsOutOfOrder p None pDepthStencilState pBlendState hasActiveQueries
     OutOfOrderPrimSafe = False"
  by (simp add: CanDrawPrimsOutOfOrder_def Let_def split: option.split)

theorem CanDrawPrimsOutOfOrder_modes_witness:
  "CanDrawPrimsOutOfOrder \<lparr>PsWritesUavs = False, GetTargetMask = (\<lambda>i. 15)\<rparr>
     (Some \<lparr>ReadOnlyDepth = True, ReadOnlyStencil = True\<rparr>)
     (Some \<lparr>IsDepthWriteEnabled = True, IsStencilWriteEnabled = True,
            CanDepthRunOutOfOrder = True, CanStencilRunOutOfOrder = True,
            DepthForcesOrdering = True\<rparr>)
     None 3 OutOfOrderPrimAlways = True
   \<and> CanDrawPrimsOutOfOrder \<lparr>PsWritesUavs = False, GetTargetMask = (\<lambda>i. 15)\<rparr>
     None
     (Some \<lparr>IsDepthWriteEnabled = False, IsStencilWriteEnabled = False,
            CanDepthRunOutOfOrder = True, CanStencilRunOutOfOrder = True,
            DepthForcesOrdering = True\<rparr>)
     None 0 OutOfOrderPrimSafe = False"
  using CanDrawPrimsOutOfOrder_modes
    [of "\<lparr>PsWritesUavs = False, GetTargetMask = (\<lambda>i. 15)\<rparr>"
        "Some \<lparr>ReadOnlyDepth = True, ReadOnlyStencil = True\<rparr>"
        "Some \<lparr>IsDepthWriteEnabled = True, IsStencilWriteEnabled = True,
               CanDepthRunOutOfOrder = True, CanStencilRunOutOfOrder = True,
               DepthForcesOrdering = True\<rparr>"
        None 3]
    CanDrawPrimsOutOfOrder_modes
    [of "\<lparr>PsWritesUavs = False, GetTargetMask = (\<lambda>i. 15)\<rparr>"
        None
        "Some \<lparr>IsDepthWriteEnabled = False, IsStencilWriteEnabled = False,
               CanDepthRunOutOfOrder = True, CanStencilRunOutOfOrder = True,
               DepthForcesOrdering = True\<rparr>"
        None 0]
  by blast

subsection \<open>Dynamic wave limits\<close>

lemma CalcMaxWavesPerSh_nonzero:
  "callerLimit \<noteq> 0 \<Longrightarrow>
     fst (CalcMaxWavesPerSh chip callerLimit)
       = min (maxWavesPerShGraphics chip)
           (max 1 ((callerLimit * numCuPerSh chip) div MaxWavesPerShGraphicsUnitSize))"
  by (simp add: CalcMaxWavesPerSh_def Let_def word_greater_zero_iff)

lemma CalcMaxWavesPerSh_in_units:
  assumes w: "callerLimit \<noteq> 0"
    and a: "callerLimit \<le> numWavefrontsPerCu chip"
    and n: "numCuPerSh chip \<le> maxNumCuPerSh chip"
    and o: "unat (maxNumCuPerSh chip) * unat (numWavefrontsPerCu chip) < 2 ^ 32"
    and m: "16 \<le> maxWavesPerShGraphics chip"
  shows "fst (CalcMaxWavesPerSh chip callerLimit)
           \<le> maxWavesPerShGraphics chip div MaxWavesPerShGraphicsUnitSize"
proof -
  let ?M = "maxWavesPerShGraphics chip"
  let ?q = "(callerLimit * numCuPerSh chip) div MaxWavesPerShGraphicsUnitSize"
  have uM: "unat ?M = unat (maxNumCuPerSh chip) * unat (numWavefrontsPerCu chip)"
    unfolding maxWavesPerShGraphics_def using o by (simp add: unat_mult_lem [symmetric])
  have le: "unat callerLimit * unat (numCuPerSh chip)
              \<le> unat (maxNumCuPerSh chip) * unat (numWavefrontsPerCu chip)"
  proof -
    have "unat callerLimit \<le> unat (numWavefrontsPerCu chip)"
      using a by (simp add: word_le_nat_alt)
    moreover have "unat (numCuPerSh chip) \<le> unat (maxNumCuPerSh chip)"
      using n by (simp add: word_le_nat_alt)
    ultimately have "unat callerLimit * unat (numCuPerSh chip)
        \<le> unat (numWavefrontsPerCu chip) * unat (maxNumCuPerSh chip)"
      by (rule mult_le_mono)
    then show ?thesis by (simp add: mult.commute)
  qed
  have uw: "unat (callerLimit * numCuPerSh chip) = unat callerLimit * unat (numCuPerSh chip)"
  proof -
    have "unat callerLimit * unat (numCuPerSh chip) < 2 ^ 32"
      using le o by linarith
    then show ?thesis by (simp add: unat_mult_lem [symmetric])
  qed
  have u16: "unat MaxWavesPerShGraphicsUnitSize = 16"
    by (simp add: MaxWavesPerShGraphicsUnitSize_def)
  have uq: "unat ?q \<le> unat ?M div 16"
    unfolding unat_div u16 uw uM using le by (rule div_le_mono)
  have m16: "16 \<le> unat ?M"
    using m by (simp add: word_le_nat_alt)
  then have one: "1 \<le> unat ?M div 16"
    by (simp add: Suc_le_eq div_greater_zero_iff)
  have umax: "unat (max 1 ?q) \<le> unat ?M div 16"
    using uq one by (simp add: max_def word_le_nat_alt)
  have "unat (min ?M (max 1 ?q)) \<le> unat (max 1 ?q)"
    by (simp add: min_def word_le_nat_alt)
  then have "unat (min ?M (max 1 ?q)) \<le> unat (?M div MaxWavesPerShGraphicsUnitSize)"
    using umax by (simp add: unat_div u16)
  then show ?thesis
    unfolding CalcMaxWavesPerSh_nonzero [OF w] by (simp add: word_le_nat_alt)
qed

text \<open>
  The clamp as the code writes it: for every caller limit the field is at most
  \<^verbatim>\<open>maxWavesPerShGraphics\<close>, which counts waves.
\<close>

lemma CalcMaxWavesPerSh_clamp:
  "fst (CalcMaxWavesPerSh chip callerLimit) \<le> maxWavesPerShGraphics chip"
  by (simp add: CalcMaxWavesPerSh_def Let_def)

text \<open>
  C10, as the code has it. A caller limit of 0 waves per compute unit gives the field
  value 0 (unlimited). Every nonzero caller limit gives a field value of at least 1,
  never 0, on a device that can hold a wave at all (its \<^verbatim>\<open>maxWavesPerShGraphics\<close>
  is not 0). A nonzero caller limit that the function's assertion admits (it is at most
  the device's waves per compute unit) gives a field value of at most the device's
  graphics maximum counted in units of 16 waves, on a device that has no more compute
  units per shader array than its maximum, whose maximum times the waves per compute
  unit fits 32 bits and is at least 16.
\<close>

theorem CalcMaxWavesPerSh_bounds:
  "fst (CalcMaxWavesPerSh chip 0) = 0
   \<and> (callerLimit \<noteq> 0 \<and> maxWavesPerShGraphics chip \<noteq> 0 \<longrightarrow>
        1 \<le> fst (CalcMaxWavesPerSh chip callerLimit)
        \<and> fst (CalcMaxWavesPerSh chip callerLimit) \<noteq> 0)
   \<and> (callerLimit \<noteq> 0 \<and> snd (CalcMaxWavesPerSh chip callerLimit) = False
        \<and> numCuPerSh chip \<le> maxNumCuPerSh chip
        \<and> unat (maxNumCuPerSh chip) * unat (numWavefrontsPerCu chip) < 2 ^ 32
        \<and> 16 \<le> maxWavesPerShGraphics chip \<longrightarrow>
        fst (CalcMaxWavesPerSh chip callerLimit)
          \<le> maxWavesPerShGraphics chip div MaxWavesPerShGraphicsUnitSize)"
proof -
  have zero: "fst (CalcMaxWavesPerSh chip 0) = 0"
    by (simp add: CalcMaxWavesPerSh_def)
  have pos: "1 \<le> fst (CalcMaxWavesPerSh chip callerLimit)
        \<and> fst (CalcMaxWavesPerSh chip callerLimit) \<noteq> 0"
    if w: "callerLimit \<noteq> 0" and m: "maxWavesPerShGraphics chip \<noteq> 0"
  proof -
    define q where
      "q = max 1 ((callerLimit * numCuPerSh chip) div MaxWavesPerShGraphicsUnitSize)"
    have r: "fst (CalcMaxWavesPerSh chip callerLimit) = min (maxWavesPerShGraphics chip) q"
      unfolding q_def by (rule CalcMaxWavesPerSh_nonzero [OF w])
    have q1: "1 \<le> q" by (simp add: q_def)
    have m1: "1 \<le> maxWavesPerShGraphics chip"
      using m by (simp add: word_le_nat_alt Suc_le_eq unat_gt_0)
    have ge: "1 \<le> min (maxWavesPerShGraphics chip) q"
      using q1 m1 by simp
    have ne: "min (maxWavesPerShGraphics chip) q \<noteq> 0"
      using ge by (metis word_le_nat_alt unat_1 unat_0 not_one_le_zero)
    show ?thesis using r ge ne by simp
  qed
  have units: "fst (CalcMaxWavesPerSh chip callerLimit)
          \<le> maxWavesPerShGraphics chip div MaxWavesPerShGraphicsUnitSize"
    if w: "callerLimit \<noteq> 0" and a: "snd (CalcMaxWavesPerSh chip callerLimit) = False"
      and n: "numCuPerSh chip \<le> maxNumCuPerSh chip"
      and o: "unat (maxNumCuPerSh chip) * unat (numWavefrontsPerCu chip) < 2 ^ 32"
      and m: "16 \<le> maxWavesPerShGraphics chip"
  proof -
    have "callerLimit \<le> numWavefrontsPerCu chip"
      using w a by (simp add: CalcMaxWavesPerSh_def Let_def word_greater_zero_iff)
    then show ?thesis
      using w n o m by (rule_tac CalcMaxWavesPerSh_in_units)
  qed
  show ?thesis using zero pos units by blast
qed

theorem CalcMaxWavesPerSh_bounds_witness:
  "fst (CalcMaxWavesPerSh exampleChip 1) = 1
   \<and> fst (CalcMaxWavesPerSh exampleChip 40) = 40
   \<and> fst (CalcMaxWavesPerSh exampleChip 40) \<le> 40"
proof -
  have m: "maxWavesPerShGraphics exampleChip = 640"
    by (simp add: maxWavesPerShGraphics_def numWavefrontsPerCu_def exampleChip_def)
  have v: "CalcMaxWavesPerSh exampleChip 1 = (1, False)"
    "CalcMaxWavesPerSh exampleChip 40 = (40, False)"
    by (simp_all add: CalcMaxWavesPerSh_def maxWavesPerShGraphics_def numWavefrontsPerCu_def
        MaxWavesPerShGraphicsUnitSize_def Let_def exampleChip_def)
  have n: "numCuPerSh exampleChip \<le> maxNumCuPerSh exampleChip"
    "unat (maxNumCuPerSh exampleChip) * unat (numWavefrontsPerCu exampleChip) < 2 ^ 32"
    by (simp_all add: numWavefrontsPerCu_def exampleChip_def)
  from CalcMaxWavesPerSh_bounds [of exampleChip 1] CalcMaxWavesPerSh_bounds [of exampleChip 40]
  show ?thesis
    using m v n by (simp add: MaxWavesPerShGraphicsUnitSize_def)
qed

text \<open>
  The claim as stated fails. On a device of 16 compute units per shader array, each of
  4 SIMDs of 10 waves, the graphics maximum is 640 waves, 40 units of 16 waves. The
  caller limit 41, one above the 40 waves of a compute unit, fails the assertion and
  gives the field value 41; the caller limit \<open>0xFFFFFFFF\<close> gives 640.
\<close>

theorem caller_limit_above_waves_per_cu_exceeds_unit_maximum:
  "CalcMaxWavesPerSh exampleChip 41 = (41, True)
   \<and> maxWavesPerShGraphics exampleChip div MaxWavesPerShGraphicsUnitSize = 40
   \<and> \<not> fst (CalcMaxWavesPerSh exampleChip 41)
          \<le> maxWavesPerShGraphics exampleChip div MaxWavesPerShGraphicsUnitSize
   \<and> fst (CalcMaxWavesPerSh exampleChip 0xFFFFFFFF) = 640"
  by (simp add: CalcMaxWavesPerSh_def maxWavesPerShGraphics_def numWavefrontsPerCu_def
      MaxWavesPerShGraphicsUnitSize_def Let_def exampleChip_def)

subsection \<open>RB+ blend-opt epsilon\<close>

text \<open>
  C7. For each of the nine downconvert codes the blend-opt epsilon is the table's value
  (4:4:4:4 gives 15, 5:6:5 gives 11, 1:5:5:5 gives 13, 8:8:8:8 gives 6, 10:11:11 gives 0,
  2:10:10:10 gives 3, both 16:16 orders give 0, 32-bit single channel gives 0), with no
  assertion. Every format outside the table maps to the no-conversion code, and its slot
  gets epsilon 0, again with no assertion.
\<close>

theorem SxBlendOptEpsilon_table:
  "SxBlendOptEpsilon SX_RT_EXPORT_4_4_4_4 = (15, False)
   \<and> SxBlendOptEpsilon SX_RT_EXPORT_5_6_5 = (11, False)
   \<and> SxBlendOptEpsilon SX_RT_EXPORT_1_5_5_5 = (13, False)
   \<and> SxBlendOptEpsilon SX_RT_EXPORT_8_8_8_8 = (6, False)
   \<and> SxBlendOptEpsilon SX_RT_EXPORT_10_11_11 = (0, False)
   \<and> SxBlendOptEpsilon SX_RT_EXPORT_2_10_10_10 = (3, False)
   \<and> SxBlendOptEpsilon SX_RT_EXPORT_16_16_GR = (0, False)
   \<and> SxBlendOptEpsilon SX_RT_EXPORT_16_16_AR = (0, False)
   \<and> SxBlendOptEpsilon SX_RT_EXPORT_32_R = (0, False)
   \<and> SxDownConvertFormat (OtherChNumFormat n) = SX_RT_EXPORT_NO_CONVERSION
   \<and> slotBlendOptEpsilon (OtherChNumFormat n) = (0, False)
   \<and> sxBlendOptEpsilon (fst (SetupRbPlusRegistersForSlot hdr slot writeMask
          (OtherChNumFormat n) regs))
       = sxBlendOptEpsilon regs
           AND NOT (push_bit (unat (4 * slot)) (SX_BLEND_OPT_EPSILON__MRT0_EPSILON_MASK hdr))
   \<and> snd (SetupRbPlusRegistersForSlot hdr slot writeMask (OtherChNumFormat n) regs) = False"
  by (simp add: SxBlendOptEpsilon_def SxDownConvertFormat_def slotBlendOptEpsilon_def
      SetupRbPlusRegistersForSlot_def Let_def)

theorem SxBlendOptEpsilon_table_witness:
  "slotBlendOptEpsilon (OtherChNumFormat 0) = (0, False)
   \<and> SxBlendOptEpsilon SX_RT_EXPORT_8_8_8_8 = (6, False)"
  using SxBlendOptEpsilon_table [of 0] by simp

text \<open>
  Composed with \<^verbatim>\<open>SxDownConvertFormat\<close>: the epsilon of a slot is the table's value
  for the class of its format, for every format, and the guard keeps the assertion of
  \<^verbatim>\<open>SxBlendOptEpsilon\<close> from ever firing.
\<close>

lemma slotBlendOptEpsilon_no_assert: "snd (slotBlendOptEpsilon format) = False"
  by (cases "SxDownConvertFormat format")
     (simp_all add: slotBlendOptEpsilon_def SxBlendOptEpsilon_def Let_def)

subsection \<open>Late-alloc wave limit\<close>

lemma computedLateAllocLimit_target_0:
  "targetLateAllocLimit cfg = 0 \<Longrightarrow> computedLateAllocLimit chip cfg registers = 0"
  by (simp add: computedLateAllocLimit_def Let_def)

lemma uint_minus_1: "(c :: uint32) \<noteq> 0 \<Longrightarrow> uint (c - 1) = uint c - 1"
proof -
  assume c: "c \<noteq> 0"
  have "uint c \<noteq> 0" using c by (simp add: uint_0_iff)
  moreover have "0 \<le> uint c" by (rule uint_ge_0)
  ultimately have "1 \<le> uint c" by linarith
  then have "uint (1 :: uint32) \<le> uint c" by (simp only: uint_1)
  then have "uint (c - 1) = uint c - uint (1 :: uint32)"
    by (simp only: uint_sub_lem)
  then show ?thesis by (simp only: uint_1)
qed

lemma uint_min_word: "uint (min (a :: uint32) b) = min (uint a) (uint b)"
  by (simp add: min_def word_le_def)

text \<open>
  C4. On a generation that has the register, the stored field is the computed limit
  minus one, clamped to the range from 0 to the device maximum minus one, which the
  register stores in its field; the stored field never exceeds the device maximum minus
  one; it is 0 when the requested target is 0. On the generation without the register
  the function changes nothing, so the field keeps the 0 of the constructor.
\<close>

theorem SetupLateAllocVs_limit:
  "(gfxLevel chip \<noteq> GfxIp6 \<longrightarrow>
      LIMIT (SetupLateAllocVs chip widths cfg registers old)
        \<le> unat (maxLateAllocVsLimit chip - 1)
      \<and> int (LIMIT (SetupLateAllocVs chip widths cfg registers old))
          = uint (min (if computedLateAllocLimit chip cfg registers > 0
                       then computedLateAllocLimit chip cfg registers - 1 else 0)
                      (maxLateAllocVsLimit chip - 1))
            mod 2 ^ LIMIT_width widths
      \<and> (0 < maxLateAllocVsLimit chip \<and>
          uint (maxLateAllocVsLimit chip) - 1 < 2 ^ LIMIT_width widths \<longrightarrow>
            int (LIMIT (SetupLateAllocVs chip widths cfg registers old))
              = max 0 (min (uint (computedLateAllocLimit chip cfg registers) - 1)
                           (uint (maxLateAllocVsLimit chip) - 1)))
      \<and> (targetLateAllocLimit cfg = 0 \<longrightarrow>
            LIMIT (SetupLateAllocVs chip widths cfg registers old) = 0))
   \<and> (gfxLevel chip = GfxIp6 \<longrightarrow>
        SetupLateAllocVs chip widths cfg registers old = old
        \<and> LIMIT (SetupLateAllocVs chip widths cfg registers zero_SPI_SHADER_LATE_ALLOC_VS) = 0)"
proof -
  let ?c = "computedLateAllocLimit chip cfg registers"
  let ?l = "if ?c > 0 then ?c - 1 else 0"
  let ?v = "min ?l (maxLateAllocVsLimit chip - 1)"
  let ?w = "LIMIT_width widths"
  let ?L = "LIMIT (SetupLateAllocVs chip widths cfg registers old)"
  have stored: "int ?L = uint ?v mod 2 ^ ?w" if "gfxLevel chip \<noteq> GfxIp6"
    using that by (simp add: SetupLateAllocVs_def Let_def storeBitfield_def)
  have le_v: "uint ?v mod 2 ^ ?w \<le> uint ?v"
    by (rule zmod_le_nonneg_dividend) simp
  have v_le: "uint ?v \<le> uint (maxLateAllocVsLimit chip - 1)"
    unfolding uint_min_word by (rule min.cobounded2)
  have bound: "?L \<le> unat (maxLateAllocVsLimit chip - 1)" if g: "gfxLevel chip \<noteq> GfxIp6"
  proof -
    have "int ?L \<le> uint (maxLateAllocVsLimit chip - 1)"
      using stored [OF g] le_v v_le by linarith
    then have "int ?L \<le> int (unat (maxLateAllocVsLimit chip - 1))"
      by (simp only: uint_nat)
    then show ?thesis by (simp only: of_nat_le_iff)
  qed
  have uint_l: "uint ?l = max 0 (uint ?c - 1)"
  proof (cases "?c = 0")
    case True
    then show ?thesis by simp
  next
    case False
    then have "uint ?l = uint ?c - 1"
      by (simp add: uint_minus_1 word_greater_zero_iff)
    moreover have "0 < uint ?c"
      using False by (metis uint_0_iff uint_ge_0 order_le_less)
    ultimately show ?thesis by simp
  qed
  have clamp: "int ?L = max 0 (min (uint ?c - 1) (uint (maxLateAllocVsLimit chip) - 1))"
    if g: "gfxLevel chip \<noteq> GfxIp6" and m: "0 < maxLateAllocVsLimit chip"
      and f: "uint (maxLateAllocVsLimit chip) - 1 < 2 ^ ?w"
  proof -
    have m0: "maxLateAllocVsLimit chip \<noteq> 0"
      using m by (simp add: word_greater_zero_iff)
    have dm: "uint (maxLateAllocVsLimit chip - 1) = uint (maxLateAllocVsLimit chip) - 1"
      by (rule uint_minus_1 [OF m0])
    have dm0: "0 \<le> uint (maxLateAllocVsLimit chip) - 1"
      using dm uint_ge_0 [of "maxLateAllocVsLimit chip - 1"] by simp
    have uv: "uint ?v = min (max 0 (uint ?c - 1)) (uint (maxLateAllocVsLimit chip) - 1)"
      unfolding uint_min_word uint_l dm by (rule refl)
    have v0: "0 \<le> uint ?v" by (rule uint_ge_0)
    have small: "uint ?v < 2 ^ ?w"
      using v_le dm f by linarith
    have "uint ?v mod 2 ^ ?w = uint ?v"
      using small v0 by (rule_tac mod_pos_pos_trivial)
    then have "int ?L = min (max 0 (uint ?c - 1)) (uint (maxLateAllocVsLimit chip) - 1)"
      using stored [OF g] uv by simp
    then show ?thesis
      using dm0 by (simp add: min_def max_def)
  qed
  have zero: "?L = 0" if g: "gfxLevel chip \<noteq> GfxIp6" and t: "targetLateAllocLimit cfg = 0"
  proof -
    have "?c = 0" using t by (rule computedLateAllocLimit_target_0)
    then have "uint ?v = 0" by simp
    then have "int ?L = 0" using stored [OF g] by simp
    then show ?thesis by simp
  qed
  have gfx6: "SetupLateAllocVs chip widths cfg registers r = r"
    if "gfxLevel chip = GfxIp6" for r
    using that by (simp add: SetupLateAllocVs_def)
  have gfx6z: "LIMIT (SetupLateAllocVs chip widths cfg registers zero_SPI_SHADER_LATE_ALLOC_VS) = 0"
    if g: "gfxLevel chip = GfxIp6"
    unfolding gfx6 [OF g] by (simp add: zero_SPI_SHADER_LATE_ALLOC_VS_def)
  show ?thesis
    using stored bound clamp zero gfx6 [of old] gfx6z by blast
qed

theorem SetupLateAllocVs_limit_witness:
  "int (LIMIT (SetupLateAllocVs exampleChip exampleWidths exampleLateAllocCfg exampleRegisters
          zero_SPI_SHADER_LATE_ALLOC_VS)) = 30
   \<and> LIMIT (SetupLateAllocVs exampleChip exampleWidths exampleLateAllocCfg exampleRegisters
          zero_SPI_SHADER_LATE_ALLOC_VS) \<le> 63"
proof -
  have c: "computedLateAllocLimit exampleChip exampleLateAllocCfg exampleRegisters = 31"
    by (simp add: computedLateAllocLimit_def targetLateAllocLimit_def exampleChip_def
        exampleLateAllocCfg_def exampleRegisters_def Let_def)
  have g: "gfxLevel exampleChip \<noteq> GfxIp6"
    by (simp add: exampleChip_def)
  have m: "maxLateAllocVsLimit exampleChip = 64"
    by (simp add: exampleChip_def)
  have w: "LIMIT_width exampleWidths = 6"
    by (simp add: exampleWidths_def)
  from SetupLateAllocVs_limit [of exampleChip exampleWidths exampleLateAllocCfg
      exampleRegisters zero_SPI_SHADER_LATE_ALLOC_VS]
  show ?thesis
    by (simp add: c g m w)
qed

subsection \<open>Primitive grouping\<close>

lemma Fixup_PRIMGROUP_SIZE:
  "PRIMGROUP_SIZE (fst (FixupIaMultiVgtParamOnGfx7Plus chip wa stages tf force r0))
     = PRIMGROUP_SIZE r0"
  by (simp add: FixupIaMultiVgtParamOnGfx7Plus_def Let_def split_def)

lemma Fixup_WD_SWITCH_ON_EOP:
  "WD_SWITCH_ON_EOP (fst (FixupIaMultiVgtParamOnGfx7Plus chip wa stages tf force r0))
     = (if SWITCH_ON_EOP r0 = 1 \<or> numShaderEngines chip \<le> 2 \<or> force then 1 else 0)"
  by (simp add: FixupIaMultiVgtParamOnGfx7Plus_def Let_def split_def)

lemma Fixup_not_WD:
  "\<not> (SWITCH_ON_EOP r0 = 1 \<or> numShaderEngines chip \<le> 2 \<or> force) \<Longrightarrow>
     SWITCH_ON_EOI (fst (FixupIaMultiVgtParamOnGfx7Plus chip wa stages tf force r0)) = 1
     \<and> PARTIAL_ES_WAVE_ON (fst (FixupIaMultiVgtParamOnGfx7Plus chip wa stages tf force r0)) = 1"
  by (simp add: FixupIaMultiVgtParamOnGfx7Plus_def Let_def split_def)

lemma SetupIaMultiVgtParam_nth:
  "idx < NumIaMultiVgtParam \<Longrightarrow>
     SetupIaMultiVgtParam chip widths wa1 wa2 stages ls tf registers ! idx
       = iaMultiVgtParamForSlot chip wa2 stages tf registers
           (iaMultiVgtParamBeforeSlots widths wa1 stages ls registers) idx"
  by (simp add: SetupIaMultiVgtParam_def)

lemma BeforeSlots_SWITCH_ON_EOP:
  "SWITCH_ON_EOP (iaMultiVgtParamBeforeSlots widths wa1 stages ls registers)
     = SWITCH_ON_EOP (case IA_MULTI_VGT_PARAM_entry registers of
                        None \<Rightarrow> zero_IA_MULTI_VGT_PARAM | Some v \<Rightarrow> v)"
  by (simp add: iaMultiVgtParamBeforeSlots_def Let_def)

lemma ForSlot_gfx7plus:
  "gfxLevel chip \<noteq> GfxIp6 \<Longrightarrow>
     fst (iaMultiVgtParamForSlot chip wa2 stages tf registers r idx)
       = fst (FixupIaMultiVgtParamOnGfx7Plus chip wa2 stages tf (idx \<noteq> 0) r)"
  by (cases "gfxLevel chip") (simp_all add: iaMultiVgtParamForSlot_def Let_def split_def)

lemma ForSlot_PRIMGROUP_SIZE:
  "PRIMGROUP_SIZE (fst (iaMultiVgtParamForSlot chip wa2 stages tf registers r idx))
     = PRIMGROUP_SIZE r"
  by (simp add: iaMultiVgtParamForSlot_def Let_def split_def Fixup_PRIMGROUP_SIZE)

text \<open>
  C5. On Gfx7 and newer, whatever the other inputs: the fixup sets wave-switch-on-EOP to
  1 when the register's switch-on-EOP is 1, or the device has at most two shader
  engines, or the caller requires it; otherwise it sets it to 0 and sets
  switch-on-end-of-instance and partial-ES-wave to 1. The same holds for the register of
  each of the two context slots after the whole setup, where the switch-on-EOP bit is the
  binary's and the caller requires the bit for the slots other than the first.
\<close>

theorem FixupIaMultiVgtParam_wd_switch_on_eop:
  "(SWITCH_ON_EOP r0 = 1 \<or> numShaderEngines chip \<le> 2 \<or> forceWdSwitchOnEop \<longrightarrow>
      WD_SWITCH_ON_EOP (fst (FixupIaMultiVgtParamOnGfx7Plus chip wa2 stages tf
         forceWdSwitchOnEop r0)) = 1)
   \<and> (\<not> (SWITCH_ON_EOP r0 = 1 \<or> numShaderEngines chip \<le> 2 \<or> forceWdSwitchOnEop) \<longrightarrow>
      WD_SWITCH_ON_EOP (fst (FixupIaMultiVgtParamOnGfx7Plus chip wa2 stages tf
         forceWdSwitchOnEop r0)) = 0
      \<and> SWITCH_ON_EOI (fst (FixupIaMultiVgtParamOnGfx7Plus chip wa2 stages tf
         forceWdSwitchOnEop r0)) = 1
      \<and> PARTIAL_ES_WAVE_ON (fst (FixupIaMultiVgtParamOnGfx7Plus chip wa2 stages tf
         forceWdSwitchOnEop r0)) = 1)
   \<and> (gfxLevel chip \<noteq> GfxIp6 \<and> idx < NumIaMultiVgtParam \<longrightarrow>
        (let binary = (case IA_MULTI_VGT_PARAM_entry registers of
                         None \<Rightarrow> zero_IA_MULTI_VGT_PARAM | Some v \<Rightarrow> v);
             r = fst (SetupIaMultiVgtParam chip widths wa1 wa2 stages ls tf registers ! idx)
         in if SWITCH_ON_EOP binary = 1 \<or> numShaderEngines chip \<le> 2 \<or> idx \<noteq> 0
            then WD_SWITCH_ON_EOP r = 1
            else WD_SWITCH_ON_EOP r = 0 \<and> SWITCH_ON_EOI r = 1 \<and> PARTIAL_ES_WAVE_ON r = 1))"
proof -
  have a: "WD_SWITCH_ON_EOP (fst (FixupIaMultiVgtParamOnGfx7Plus chip wa2 stages tf f r)) = 1"
    if "SWITCH_ON_EOP r = 1 \<or> numShaderEngines chip \<le> 2 \<or> f" for f r
    using that by (simp add: Fixup_WD_SWITCH_ON_EOP)
  have b: "WD_SWITCH_ON_EOP (fst (FixupIaMultiVgtParamOnGfx7Plus chip wa2 stages tf f r)) = 0
      \<and> SWITCH_ON_EOI (fst (FixupIaMultiVgtParamOnGfx7Plus chip wa2 stages tf f r)) = 1
      \<and> PARTIAL_ES_WAVE_ON (fst (FixupIaMultiVgtParamOnGfx7Plus chip wa2 stages tf f r)) = 1"
    if "\<not> (SWITCH_ON_EOP r = 1 \<or> numShaderEngines chip \<le> 2 \<or> f)" for f r
    using that Fixup_not_WD [OF that] by (simp add: Fixup_WD_SWITCH_ON_EOP)
  have c: "(let binary = (case IA_MULTI_VGT_PARAM_entry registers of
                         None \<Rightarrow> zero_IA_MULTI_VGT_PARAM | Some v \<Rightarrow> v);
             r = fst (SetupIaMultiVgtParam chip widths wa1 wa2 stages ls tf registers ! idx)
         in if SWITCH_ON_EOP binary = 1 \<or> numShaderEngines chip \<le> 2 \<or> idx \<noteq> 0
            then WD_SWITCH_ON_EOP r = 1
            else WD_SWITCH_ON_EOP r = 0 \<and> SWITCH_ON_EOI r = 1 \<and> PARTIAL_ES_WAVE_ON r = 1)"
    if g: "gfxLevel chip \<noteq> GfxIp6" and i: "idx < NumIaMultiVgtParam"
  proof -
    let ?b = "iaMultiVgtParamBeforeSlots widths wa1 stages ls registers"
    have r: "fst (SetupIaMultiVgtParam chip widths wa1 wa2 stages ls tf registers ! idx)
               = fst (FixupIaMultiVgtParamOnGfx7Plus chip wa2 stages tf (idx \<noteq> 0) ?b)"
      by (simp add: SetupIaMultiVgtParam_nth [OF i] ForSlot_gfx7plus [OF g])
    have e: "SWITCH_ON_EOP ?b
               = SWITCH_ON_EOP (case IA_MULTI_VGT_PARAM_entry registers of
                                  None \<Rightarrow> zero_IA_MULTI_VGT_PARAM | Some v \<Rightarrow> v)"
      by (rule BeforeSlots_SWITCH_ON_EOP)
    show ?thesis
      unfolding Let_def r e [symmetric]
      using a [of ?b "idx \<noteq> 0"] b [of ?b "idx \<noteq> 0"] by (simp split: if_splits)
  qed
  show ?thesis using a b c by blast
qed

theorem FixupIaMultiVgtParam_wd_switch_on_eop_witness:
  "WD_SWITCH_ON_EOP (fst (SetupIaMultiVgtParam exampleChip exampleWidths False False
       exampleVsPsStages \<lparr>NUM_PATCHES = 0, HS_NUM_INPUT_CP = 0\<rparr>
       \<lparr>DISTRIBUTION_MODE = NO_DIST, NUM_DS_WAVES_PER_SIMD = 0\<rparr> exampleRegisters ! 0)) = 0
   \<and> SWITCH_ON_EOI (fst (SetupIaMultiVgtParam exampleChip exampleWidths False False
       exampleVsPsStages \<lparr>NUM_PATCHES = 0, HS_NUM_INPUT_CP = 0\<rparr>
       \<lparr>DISTRIBUTION_MODE = NO_DIST, NUM_DS_WAVES_PER_SIMD = 0\<rparr> exampleRegisters ! 0)) = 1
   \<and> PARTIAL_ES_WAVE_ON (fst (SetupIaMultiVgtParam exampleChip exampleWidths False False
       exampleVsPsStages \<lparr>NUM_PATCHES = 0, HS_NUM_INPUT_CP = 0\<rparr>
       \<lparr>DISTRIBUTION_MODE = NO_DIST, NUM_DS_WAVES_PER_SIMD = 0\<rparr> exampleRegisters ! 0)) = 1
   \<and> WD_SWITCH_ON_EOP (fst (SetupIaMultiVgtParam exampleChip exampleWidths False False
       exampleVsPsStages \<lparr>NUM_PATCHES = 0, HS_NUM_INPUT_CP = 0\<rparr>
       \<lparr>DISTRIBUTION_MODE = NO_DIST, NUM_DS_WAVES_PER_SIMD = 0\<rparr> exampleRegisters ! 1)) = 1"
proof -
  have g: "gfxLevel exampleChip \<noteq> GfxIp6" and n: "\<not> numShaderEngines exampleChip \<le> 2"
    by (simp_all add: exampleChip_def)
  have b: "SWITCH_ON_EOP (case IA_MULTI_VGT_PARAM_entry exampleRegisters of
             None \<Rightarrow> zero_IA_MULTI_VGT_PARAM | Some v \<Rightarrow> v) = 0"
    by (simp add: exampleRegisters_def zero_IA_MULTI_VGT_PARAM_def)
  have i: "(0 :: nat) < NumIaMultiVgtParam" "(1 :: nat) < NumIaMultiVgtParam"
    by (simp_all add: NumIaMultiVgtParam_def)
  from FixupIaMultiVgtParam_wd_switch_on_eop
         [where chip = exampleChip and idx = 0 and registers = exampleRegisters
            and widths = exampleWidths and ?wa1.0 = False and ?wa2.0 = False
            and stages = exampleVsPsStages
            and ls = "\<lparr>NUM_PATCHES = 0, HS_NUM_INPUT_CP = 0\<rparr>"
            and tf = "\<lparr>DISTRIBUTION_MODE = NO_DIST, NUM_DS_WAVES_PER_SIMD = 0\<rparr>"]
       FixupIaMultiVgtParam_wd_switch_on_eop
         [where chip = exampleChip and idx = 1 and registers = exampleRegisters
            and widths = exampleWidths and ?wa1.0 = False and ?wa2.0 = False
            and stages = exampleVsPsStages
            and ls = "\<lparr>NUM_PATCHES = 0, HS_NUM_INPUT_CP = 0\<rparr>"
            and tf = "\<lparr>DISTRIBUTION_MODE = NO_DIST, NUM_DS_WAVES_PER_SIMD = 0\<rparr>"]
  show ?thesis
    using g n b i by (simp add: Let_def)
qed

text \<open>
  C6. For each context slot the primitive group size is: with tessellation active, the
  number of patches per threadgroup minus one; else, with geometry active and a nonzero
  input-control-point count, 256 divided by that count, minus one; else the value of the
  binary, which is 0 when the binary does not give the register. A forced value is
  stored in the register's field, which keeps its low bits.
\<close>

theorem SetupIaMultiVgtParam_primgroup_size:
  "idx < NumIaMultiVgtParam \<longrightarrow>
     PRIMGROUP_SIZE (fst (SetupIaMultiVgtParam chip widths wa1 wa2 stages ls tf registers ! idx))
       = (if IsTessEnabled stages then
            storeBitfield (PRIMGROUP_SIZE_width widths) (int (NUM_PATCHES ls) - 1)
          else if IsGsEnabled stages \<and> HS_NUM_INPUT_CP ls \<noteq> 0 then
            storeBitfield (PRIMGROUP_SIZE_width widths) (256 div int (HS_NUM_INPUT_CP ls) - 1)
          else (case IA_MULTI_VGT_PARAM_entry registers of
                  None \<Rightarrow> 0 | Some v \<Rightarrow> PRIMGROUP_SIZE v))
     \<and> (IsTessEnabled stages \<and> 0 < NUM_PATCHES ls
          \<and> NUM_PATCHES ls \<le> 2 ^ PRIMGROUP_SIZE_width widths \<longrightarrow>
        PRIMGROUP_SIZE (fst (SetupIaMultiVgtParam chip widths wa1 wa2 stages ls tf registers ! idx))
          = NUM_PATCHES ls - 1)
     \<and> (\<not> IsTessEnabled stages \<and> IsGsEnabled stages \<and> 0 < HS_NUM_INPUT_CP ls
          \<and> HS_NUM_INPUT_CP ls \<le> 256
          \<and> 256 div HS_NUM_INPUT_CP ls \<le> 2 ^ PRIMGROUP_SIZE_width widths \<longrightarrow>
        PRIMGROUP_SIZE (fst (SetupIaMultiVgtParam chip widths wa1 wa2 stages ls tf registers ! idx))
          = 256 div HS_NUM_INPUT_CP ls - 1)"
proof
  assume i: "idx < NumIaMultiVgtParam"
  let ?r = "fst (SetupIaMultiVgtParam chip widths wa1 wa2 stages ls tf registers ! idx)"
  let ?w = "PRIMGROUP_SIZE_width widths"
  have eq: "PRIMGROUP_SIZE ?r
       = (if IsTessEnabled stages then storeBitfield ?w (int (NUM_PATCHES ls) - 1)
          else if IsGsEnabled stages \<and> HS_NUM_INPUT_CP ls \<noteq> 0 then
            storeBitfield ?w (256 div int (HS_NUM_INPUT_CP ls) - 1)
          else (case IA_MULTI_VGT_PARAM_entry registers of
                  None \<Rightarrow> 0 | Some v \<Rightarrow> PRIMGROUP_SIZE v))"
    by (simp add: SetupIaMultiVgtParam_nth [OF i] ForSlot_PRIMGROUP_SIZE
        iaMultiVgtParamBeforeSlots_def Let_def zero_IA_MULTI_VGT_PARAM_def
        split: option.splits)
  have small: "storeBitfield ?w (int n - 1) = n - 1" if n0: "0 < n" and nw: "n \<le> 2 ^ ?w" for n
  proof -
    have e: "int n - 1 = int (n - 1)" using n0 by simp
    have "n - 1 < 2 ^ ?w" using n0 nw by linarith
    then have "int (n - 1) < int (2 ^ ?w)" by (simp only: of_nat_less_iff)
    then have lt: "int (n - 1) < 2 ^ ?w" by simp
    have "int (n - 1) mod 2 ^ ?w = int (n - 1)"
      using lt by (simp add: mod_pos_pos_trivial)
    then show ?thesis by (simp add: storeBitfield_def e)
  qed
  have tess: "PRIMGROUP_SIZE ?r = NUM_PATCHES ls - 1"
    if "IsTessEnabled stages" "0 < NUM_PATCHES ls" "NUM_PATCHES ls \<le> 2 ^ ?w"
    using that eq small by simp
  have gs: "PRIMGROUP_SIZE ?r = 256 div HS_NUM_INPUT_CP ls - 1"
    if "\<not> IsTessEnabled stages" "IsGsEnabled stages" "0 < HS_NUM_INPUT_CP ls"
       "HS_NUM_INPUT_CP ls \<le> 256" "256 div HS_NUM_INPUT_CP ls \<le> 2 ^ ?w"
  proof -
    have pos: "0 < 256 div HS_NUM_INPUT_CP ls"
      using that(3,4) by (simp add: div_greater_zero_iff)
    have "256 div int (HS_NUM_INPUT_CP ls) = int (256 div HS_NUM_INPUT_CP ls)"
      by (simp add: zdiv_int)
    then show ?thesis
      using that eq small [OF pos that(5)] by simp
  qed
  show "PRIMGROUP_SIZE ?r
       = (if IsTessEnabled stages then storeBitfield ?w (int (NUM_PATCHES ls) - 1)
          else if IsGsEnabled stages \<and> HS_NUM_INPUT_CP ls \<noteq> 0 then
            storeBitfield ?w (256 div int (HS_NUM_INPUT_CP ls) - 1)
          else (case IA_MULTI_VGT_PARAM_entry registers of
                  None \<Rightarrow> 0 | Some v \<Rightarrow> PRIMGROUP_SIZE v))
     \<and> (IsTessEnabled stages \<and> 0 < NUM_PATCHES ls \<and> NUM_PATCHES ls \<le> 2 ^ ?w \<longrightarrow>
        PRIMGROUP_SIZE ?r = NUM_PATCHES ls - 1)
     \<and> (\<not> IsTessEnabled stages \<and> IsGsEnabled stages \<and> 0 < HS_NUM_INPUT_CP ls
          \<and> HS_NUM_INPUT_CP ls \<le> 256
          \<and> 256 div HS_NUM_INPUT_CP ls \<le> 2 ^ ?w \<longrightarrow>
        PRIMGROUP_SIZE ?r = 256 div HS_NUM_INPUT_CP ls - 1)"
    using eq tess gs by blast
qed

theorem SetupIaMultiVgtParam_primgroup_size_witness:
  "PRIMGROUP_SIZE (fst (SetupIaMultiVgtParam exampleChip exampleWidths False False
       exampleTessStages \<lparr>NUM_PATCHES = 8, HS_NUM_INPUT_CP = 3\<rparr>
       \<lparr>DISTRIBUTION_MODE = NO_DIST, NUM_DS_WAVES_PER_SIMD = 0\<rparr> exampleRegisters ! 0)) = 7
   \<and> PRIMGROUP_SIZE (fst (SetupIaMultiVgtParam exampleChip exampleWidths False False
       exampleVsPsStages \<lparr>NUM_PATCHES = 8, HS_NUM_INPUT_CP = 3\<rparr>
       \<lparr>DISTRIBUTION_MODE = NO_DIST, NUM_DS_WAVES_PER_SIMD = 0\<rparr> exampleRegisters ! 1)) = 0"
proof -
  have i: "(0 :: nat) < NumIaMultiVgtParam" "(1 :: nat) < NumIaMultiVgtParam"
    by (simp_all add: NumIaMultiVgtParam_def)
  from SetupIaMultiVgtParam_primgroup_size
         [where idx = 0 and chip = exampleChip and widths = exampleWidths
            and stages = exampleTessStages and registers = exampleRegisters
            and ?wa1.0 = False and ?wa2.0 = False
            and ls = "\<lparr>NUM_PATCHES = 8, HS_NUM_INPUT_CP = 3\<rparr>"
            and tf = "\<lparr>DISTRIBUTION_MODE = NO_DIST, NUM_DS_WAVES_PER_SIMD = 0\<rparr>"]
       SetupIaMultiVgtParam_primgroup_size
         [where idx = 1 and chip = exampleChip and widths = exampleWidths
            and stages = exampleVsPsStages and registers = exampleRegisters
            and ?wa1.0 = False and ?wa2.0 = False
            and ls = "\<lparr>NUM_PATCHES = 8, HS_NUM_INPUT_CP = 3\<rparr>"
            and tf = "\<lparr>DISTRIBUTION_MODE = NO_DIST, NUM_DS_WAVES_PER_SIMD = 0\<rparr>"]
  show ?thesis
    using i
    by (simp add: exampleTessStages_def exampleVsPsStages_def exampleWidths_def
        exampleRegisters_def)
qed

subsection \<open>User-data signature: base vertex and base instance\<close>

lemma scanUserDataRegisters_unmapped:
  "userDataRegisters env offset = None \<Longrightarrow> offset \<le> lastAddr \<Longrightarrow> offset \<noteq> 0xFFFF \<Longrightarrow>
     scanUserDataRegisters env offset lastAddr st
       = scanUserDataRegisters env (offset + 1) lastAddr st"
  by (subst scanUserDataRegisters.simps) simp

lemma scanUserDataRegisters_mapped:
  "userDataRegisters env offset = Some v \<Longrightarrow> offset \<le> lastAddr \<Longrightarrow> offset \<noteq> 0xFFFF \<Longrightarrow>
     scanUserDataRegisters env offset lastAddr st
       = scanUserDataRegisters env (offset + 1) lastAddr (SignatureEntry env offset v st)"
  by (subst scanUserDataRegisters.simps) simp

lemma scanUserDataRegisters_done:
  "\<not> offset \<le> lastAddr \<Longrightarrow> scanUserDataRegisters env offset lastAddr st = Some st"
  by (subst scanUserDataRegisters.simps) simp

lemma SignatureEntry_reaches_base_instance:
  assumes "value = BaseInstance (abi env)"
    "value + 1 \<noteq> ucast (streamOutTableEntryPlus1 env)"
    "value + 1 \<noteq> ucast (indirectTableEntryPlus1 env)"
    "\<not> value < MaxUserDataEntries (abi env)"
    "value \<noteq> GlobalTable (abi env)" "value \<noteq> PerShaderTable (abi env)"
    "value \<noteq> SpillTable (abi env)" "value \<noteq> Workgroup (abi env)"
    "value \<noteq> VertexBufferTable (abi env)" "value \<noteq> StreamOutTable (abi env)"
    "value \<noteq> BaseVertex (abi env)"
  shows "SignatureEntry env offset value st =
        updateSignature (\<lambda>g. g\<lparr>vertexOffsetRegAddr := offset - 1\<rparr>)
          (raise (uint (vertexOffsetRegAddr (signature st)) = uint offset - 1 \<or>
                  vertexOffsetRegAddr (signature st) = UserDataNotMapped)
             (AssertBaseInstance offset) st)"
  unfolding SignatureEntry_def Let_def
  using assms by (simp only: if_False if_True refl)

lemma events_updateSignature_raise:
  "events (updateSignature f (raise holds e st)) = (if holds then events st else events st @ [e])"
  by (simp add: updateSignature_def raise_def)

lemma vertexOffsetRegAddr_updateSignature:
  "vertexOffsetRegAddr (signature (updateSignature (\<lambda>g. g\<lparr>vertexOffsetRegAddr := v\<rparr>) st)) = v"
  by (simp add: updateSignature_def)

text \<open>
  C3, as the code has it. An entry that reaches the base-instance branch (its value is
  the base-instance role, and no earlier test of the chain takes it) records the
  preceding register address as the vertex-offset register. It is reported as a failure
  exactly when a vertex-offset register is already recorded at another address; when
  none is recorded yet, or the recorded one is the preceding address, it is accepted
  without a failure.
\<close>

theorem SignatureEntry_base_instance:
  "value = BaseInstance (abi env)
   \<and> value + 1 \<noteq> ucast (streamOutTableEntryPlus1 env)
   \<and> value + 1 \<noteq> ucast (indirectTableEntryPlus1 env)
   \<and> \<not> value < MaxUserDataEntries (abi env)
   \<and> value \<noteq> GlobalTable (abi env) \<and> value \<noteq> PerShaderTable (abi env)
   \<and> value \<noteq> SpillTable (abi env) \<and> value \<noteq> Workgroup (abi env)
   \<and> value \<noteq> VertexBufferTable (abi env) \<and> value \<noteq> StreamOutTable (abi env)
   \<and> value \<noteq> BaseVertex (abi env)
   \<longrightarrow>
     vertexOffsetRegAddr (signature (SignatureEntry env offset value st)) = offset - 1
     \<and> events (SignatureEntry env offset value st)
         = (if vertexOffsetRegAddr (signature st) = UserDataNotMapped
               \<or> uint (vertexOffsetRegAddr (signature st)) = uint offset - 1
            then events st
            else events st @ [AssertBaseInstance offset])"
proof (intro impI, elim conjE)
  assume a: "value = BaseInstance (abi env)"
    "value + 1 \<noteq> ucast (streamOutTableEntryPlus1 env)"
    "value + 1 \<noteq> ucast (indirectTableEntryPlus1 env)"
    "\<not> value < MaxUserDataEntries (abi env)"
    "value \<noteq> GlobalTable (abi env)" "value \<noteq> PerShaderTable (abi env)"
    "value \<noteq> SpillTable (abi env)" "value \<noteq> Workgroup (abi env)"
    "value \<noteq> VertexBufferTable (abi env)" "value \<noteq> StreamOutTable (abi env)"
    "value \<noteq> BaseVertex (abi env)"
  have e: "SignatureEntry env offset value st =
        updateSignature (\<lambda>g. g\<lparr>vertexOffsetRegAddr := offset - 1\<rparr>)
          (raise (uint (vertexOffsetRegAddr (signature st)) = uint offset - 1 \<or>
                  vertexOffsetRegAddr (signature st) = UserDataNotMapped)
             (AssertBaseInstance offset) st)"
    by (rule SignatureEntry_reaches_base_instance [OF a])
  show "vertexOffsetRegAddr (signature (SignatureEntry env offset value st)) = offset - 1
     \<and> events (SignatureEntry env offset value st)
         = (if vertexOffsetRegAddr (signature st) = UserDataNotMapped
               \<or> uint (vertexOffsetRegAddr (signature st)) = uint offset - 1
            then events st
            else events st @ [AssertBaseInstance offset])"
    unfolding e events_updateSignature_raise vertexOffsetRegAddr_updateSignature
    by (simp add: disj_commute)
qed

theorem SignatureEntry_base_instance_witness:
  "vertexOffsetRegAddr (signature (SignatureEntry
       \<lparr>abi = exampleAbi, userDataRegisters = baseInstanceOnlyRegisters, hwStage = Vs,
        streamOutTableEntryPlus1 = 0, indirectTableEntryPlus1 = 0, vbTableStage = Vs\<rparr>
       0x2C4E 0x10000004
       (updateSignature (\<lambda>g. g\<lparr>vertexOffsetRegAddr := 0x2C50\<rparr>) initialSignatureState)))
     = 0x2C4D
   \<and> events (SignatureEntry
       \<lparr>abi = exampleAbi, userDataRegisters = baseInstanceOnlyRegisters, hwStage = Vs,
        streamOutTableEntryPlus1 = 0, indirectTableEntryPlus1 = 0, vbTableStage = Vs\<rparr>
       0x2C4E 0x10000004
       (updateSignature (\<lambda>g. g\<lparr>vertexOffsetRegAddr := 0x2C50\<rparr>) initialSignatureState))
     = [AssertBaseInstance 0x2C4E]"
  using SignatureEntry_base_instance
    [of "0x10000004"
        "\<lparr>abi = exampleAbi, userDataRegisters = baseInstanceOnlyRegisters, hwStage = Vs,
          streamOutTableEntryPlus1 = 0, indirectTableEntryPlus1 = 0, vbTableStage = Vs\<rparr>"
        "0x2C4E"
        "updateSignature (\<lambda>g. g\<lparr>vertexOffsetRegAddr := 0x2C50\<rparr>) initialSignatureState"]
  by (simp add: exampleAbi_def updateSignature_def initialSignatureState_def
      UserDataNotMapped_def)

text \<open>
  The claim as stated fails: in a vertex-pixel pipeline whose binary maps the
  base-instance role at register \<open>0x2C4E\<close> of the vertex stage and maps base vertex
  nowhere, the builder returns with no failure reported and with \<open>0x2C4D\<close> recorded as
  the vertex-offset register.
\<close>

theorem base_instance_without_base_vertex_accepted:
  "map_option events
     (SetupSignatureForStageFromElf exampleAbi (\<lambda>m. 0) exampleVsPsStages exampleMetadata
        baseInstanceOnlyRegisters Vs initialSignatureState) = Some []
   \<and> map_option (\<lambda>st. vertexOffsetRegAddr (signature st))
     (SetupSignatureForStageFromElf exampleAbi (\<lambda>m. 0) exampleVsPsStages exampleMetadata
        baseInstanceOnlyRegisters Vs initialSignatureState) = Some 0x2C4D"
proof -
  let ?env = "\<lparr>abi = exampleAbi, userDataRegisters = baseInstanceOnlyRegisters, hwStage = Vs,
      streamOutTableEntryPlus1 = UserDataNotMapped, indirectTableEntryPlus1 = UserDataNotMapped,
      vbTableStage = Vs\<rparr>"
  let ?e = "SignatureEntry ?env 0x2C4E 0x10000004 initialSignatureState"
  have none: "r \<noteq> 0x2C4E \<Longrightarrow> userDataRegisters ?env r = None" for r
    by (simp add: baseInstanceOnlyRegisters_def)
  have some: "userDataRegisters ?env 0x2C4E = Some 0x10000004"
    by (simp add: baseInstanceOnlyRegisters_def)
  have s1: "scanUserDataRegisters ?env 0x2C4C 0x2C5B initialSignatureState
              = scanUserDataRegisters ?env 0x2C4E 0x2C5B initialSignatureState"
    using scanUserDataRegisters_unmapped [of ?env "0x2C4C" "0x2C5B" initialSignatureState]
      scanUserDataRegisters_unmapped [of ?env "0x2C4D" "0x2C5B" initialSignatureState]
      none [of "0x2C4C"] none [of "0x2C4D"]
    by simp
  have s2: "scanUserDataRegisters ?env 0x2C4E 0x2C5B initialSignatureState
              = scanUserDataRegisters ?env 0x2C4F 0x2C5B ?e"
    using scanUserDataRegisters_mapped [of ?env "0x2C4E" "0x10000004" "0x2C5B"
        initialSignatureState] some
    by simp
  have step: "scanUserDataRegisters ?env r 0x2C5B ?e = scanUserDataRegisters ?env (r + 1) 0x2C5B ?e"
    if "r \<noteq> 0x2C4E" "r \<le> 0x2C5B" "r \<noteq> 0xFFFF" for r
    using that none by (rule_tac scanUserDataRegisters_unmapped) simp_all
  have s3: "scanUserDataRegisters ?env 0x2C4F 0x2C5B ?e = scanUserDataRegisters ?env 0x2C5C 0x2C5B ?e"
    using step [of "0x2C4F"] step [of "0x2C50"] step [of "0x2C51"] step [of "0x2C52"]
      step [of "0x2C53"] step [of "0x2C54"] step [of "0x2C55"] step [of "0x2C56"]
      step [of "0x2C57"] step [of "0x2C58"] step [of "0x2C59"] step [of "0x2C5A"]
      step [of "0x2C5B"]
    by simp
  have s4: "scanUserDataRegisters ?env 0x2C5C 0x2C5B ?e = Some ?e"
    by (rule scanUserDataRegisters_done) simp
  have scan: "scanUserDataRegisters ?env 0x2C4C 0x2C5B initialSignatureState = Some ?e"
    using s1 s2 s3 s4 by simp
  have e0: "?e = updateSignature (\<lambda>g. g\<lparr>vertexOffsetRegAddr := 0x2C4E - 1\<rparr>)
          (raise (uint (vertexOffsetRegAddr (signature initialSignatureState)) = uint (0x2C4E :: uint16) - 1 \<or>
                  vertexOffsetRegAddr (signature initialSignatureState) = UserDataNotMapped)
             (AssertBaseInstance 0x2C4E) initialSignatureState)"
    by (rule SignatureEntry_reaches_base_instance)
       (simp_all add: exampleAbi_def UserDataNotMapped_def)
  have e: "events ?e = [] \<and> vertexOffsetRegAddr (signature ?e) = 0x2C4D
           \<and> streamOutTableRegAddr (signature ?e) = 0
           \<and> vertexBufTableRegAddr (signature ?e) = 0"
    unfolding e0
    by (simp add: raise_def updateSignature_def
        initialSignatureState_def NullGfxSignature_def UserDataNotMapped_def)
  have b: "BaseRegAddr exampleAbi Vs = 0x2C4C" "LastRegAddr exampleAbi Vs = 0x2C5B"
    by (simp_all add: exampleAbi_def)
  show ?thesis
    using scan e
    by (simp add: SetupSignatureForStageFromElf_def Let_def b exampleMetadata_def
        exampleVsPsStages_def raise_def updateSignature_def UserDataNotMapped_def)
qed

subsection \<open>SET path and LOAD path\<close>

text \<open>
  C8. For the per-stage (SH) group and for the shared (context) group, each on its own:
  the emitted commands hold a LOAD command exactly when the group's LoadBlock count is
  not zero and the command stream's optimizer is not enabled, and then the load is of
  that LoadBlock. With the optimizer enabled (and also with no LoadBlock compiled for the
  group) the emitted commands are those of the SET path and are the same whatever
  LoadBlock was compiled. For the SH group these are the inline write of the late-alloc
  register (on Gfx7 and newer) and the call of each active stage collaborator with the
  SET template argument: at least one command, every one of the SET path. For the
  context group these are the inline writes of the pipeline's own registers (twelve
  commands of the SET path, thirteen where the over-rasterization workaround is off),
  then the call of each active stage collaborator with the SET template argument, then
  the two read-modify-write commands.
\<close>

theorem load_path_only_without_optimizer:
  "(list_ex isLoadCommand
      (WriteShCommands chip stages lp lateAlloc opt graphicsInfo)
      \<longleftrightarrow> countSh lp \<noteq> 0 \<and> \<not> opt)
   \<and> (list_ex isLoadCommand
      (WriteContextCommands m1 m2 wa stages lp ctxRegs opt)
      \<longleftrightarrow> countCtx lp \<noteq> 0 \<and> \<not> opt)
   \<and> (countSh lp \<noteq> 0 \<and> \<not> opt \<longrightarrow>
        hd (WriteShCommands chip stages lp lateAlloc opt graphicsInfo)
          = BuildLoadShRegsIndex (gpuVirtAddrSh lp) (countSh lp))
   \<and> (countCtx lp \<noteq> 0 \<and> \<not> opt \<longrightarrow>
        hd (WriteContextCommands m1 m2 wa stages lp ctxRegs opt)
          = BuildLoadContextRegsIndex (gpuVirtAddrCtx lp) (countCtx lp))
   \<and> WriteShCommands chip stages lp lateAlloc True graphicsInfo
        = WriteShCommands chip stages lp' lateAlloc True graphicsInfo
   \<and> WriteContextCommands m1 m2 wa stages lp ctxRegs True
        = WriteContextCommands m1 m2 wa stages lp' ctxRegs True
   \<and> (opt \<or> countSh lp = 0 \<longrightarrow>
        WriteShCommands chip stages lp lateAlloc opt graphicsInfo
          = (let stageInfos = CalcDynamicStageInfos chip stages graphicsInfo
                                zero_DynamicStageInfos
             in (if gfxLevelOrd (gfxLevel chip) \<ge> gfxLevelOrd GfxIp7
                 then [WriteSetOneShReg_LATE_ALLOC_VS lateAlloc] else [])
                @ (if IsTessEnabled stages
                   then [ChunkLsHs_WriteShCommands False (stage_ls stageInfos)
                           (stage_hs stageInfos)]
                   else [])
                @ (if IsGsEnabled stages
                   then [ChunkEsGs_WriteShCommands False (stage_es stageInfos)
                           (stage_gs stageInfos)]
                   else [])
                @ [ChunkVsPs_WriteShCommands False (stage_vs stageInfos)
                     (stage_ps stageInfos)])
        \<and> WriteShCommands chip stages lp lateAlloc opt graphicsInfo \<noteq> []
        \<and> list_all isSetPathCommand
             (WriteShCommands chip stages lp lateAlloc opt graphicsInfo))
   \<and> (opt \<or> countCtx lp = 0 \<longrightarrow>
        WriteContextCommands m1 m2 wa stages lp ctxRegs opt
          = WriteContextCommandsSetPath wa ctxRegs
            @ (if IsTessEnabled stages then [ChunkLsHs_WriteContextCommands False] else [])
            @ (if IsGsEnabled stages then [ChunkEsGs_WriteContextCommands False] else [])
            @ [ChunkVsPs_WriteContextCommands False]
            @ [WriteContextRegRmw mmDB_ALPHA_TO_MASK m1 (dbAlphaToMask_u32All ctxRegs),
               WriteContextRegRmw mmDB_RENDER_OVERRIDE m2 (dbRenderOverride_u32All ctxRegs)]
        \<and> list_all isSetPathCommand
             (butlast (butlast (WriteContextCommands m1 m2 wa stages lp ctxRegs opt))))
   \<and> list_all isSetPathCommand (WriteContextCommandsSetPath wa ctxRegs)
   \<and> length (WriteContextCommandsSetPath wa ctxRegs) = (if wa then 12 else 13)
   \<and> hd (WriteContextCommandsSetPath wa ctxRegs)
        = WriteSetOneContextReg mmVGT_SHADER_STAGES_EN (vgtShaderStagesEn_u32All ctxRegs)"
proof -
  have sh: "list_ex isLoadCommand (WriteShCommands chip stages lp lateAlloc opt graphicsInfo)
      \<longleftrightarrow> countSh lp \<noteq> 0 \<and> \<not> opt"
    by (simp add: WriteShCommands_def Let_def)
  have setpath: "\<not> list_ex isLoadCommand (WriteContextCommandsSetPath wa ctxRegs)"
    by (simp add: WriteContextCommandsSetPath_def)
  have ctx: "list_ex isLoadCommand (WriteContextCommands m1 m2 wa stages lp ctxRegs opt)
      \<longleftrightarrow> countCtx lp \<noteq> 0 \<and> \<not> opt"
    using setpath by (simp add: WriteContextCommands_def)
  have hsh: "hd (WriteShCommands chip stages lp lateAlloc opt graphicsInfo)
          = BuildLoadShRegsIndex (gpuVirtAddrSh lp) (countSh lp)"
    if "countSh lp \<noteq> 0 \<and> \<not> opt"
    using that by (simp add: WriteShCommands_def Let_def)
  have hctx: "hd (WriteContextCommands m1 m2 wa stages lp ctxRegs opt)
          = BuildLoadContextRegsIndex (gpuVirtAddrCtx lp) (countCtx lp)"
    if "countCtx lp \<noteq> 0 \<and> \<not> opt"
    using that by (simp add: WriteContextCommands_def)
  have ish: "WriteShCommands chip stages lp lateAlloc True graphicsInfo
        = WriteShCommands chip stages lp' lateAlloc True graphicsInfo"
    by (simp add: WriteShCommands_def Let_def)
  have ictx: "WriteContextCommands m1 m2 wa stages lp ctxRegs True
        = WriteContextCommands m1 m2 wa stages lp' ctxRegs True"
    by (simp add: WriteContextCommands_def)
  have setsh: "WriteShCommands chip stages lp lateAlloc opt graphicsInfo
          = (let stageInfos = CalcDynamicStageInfos chip stages graphicsInfo
                                zero_DynamicStageInfos
             in (if gfxLevelOrd (gfxLevel chip) \<ge> gfxLevelOrd GfxIp7
                 then [WriteSetOneShReg_LATE_ALLOC_VS lateAlloc] else [])
                @ (if IsTessEnabled stages
                   then [ChunkLsHs_WriteShCommands False (stage_ls stageInfos)
                           (stage_hs stageInfos)]
                   else [])
                @ (if IsGsEnabled stages
                   then [ChunkEsGs_WriteShCommands False (stage_es stageInfos)
                           (stage_gs stageInfos)]
                   else [])
                @ [ChunkVsPs_WriteShCommands False (stage_vs stageInfos)
                     (stage_ps stageInfos)])
        \<and> WriteShCommands chip stages lp lateAlloc opt graphicsInfo \<noteq> []
        \<and> list_all isSetPathCommand
             (WriteShCommands chip stages lp lateAlloc opt graphicsInfo)"
    if "opt \<or> countSh lp = 0"
    using that by (auto simp add: WriteShCommands_def Let_def)
  have allset: "list_all isSetPathCommand (WriteContextCommandsSetPath wa ctxRegs)"
    by (simp add: WriteContextCommandsSetPath_def)
  have len: "length (WriteContextCommandsSetPath wa ctxRegs) = (if wa then 12 else 13)"
    by (simp add: WriteContextCommandsSetPath_def)
  have first: "hd (WriteContextCommandsSetPath wa ctxRegs)
        = WriteSetOneContextReg mmVGT_SHADER_STAGES_EN (vgtShaderStagesEn_u32All ctxRegs)"
    by (simp add: WriteContextCommandsSetPath_def)
  have eqctx: "WriteContextCommands m1 m2 wa stages lp ctxRegs opt
          = WriteContextCommandsSetPath wa ctxRegs
            @ (if IsTessEnabled stages then [ChunkLsHs_WriteContextCommands False] else [])
            @ (if IsGsEnabled stages then [ChunkEsGs_WriteContextCommands False] else [])
            @ [ChunkVsPs_WriteContextCommands False]
            @ [WriteContextRegRmw mmDB_ALPHA_TO_MASK m1 (dbAlphaToMask_u32All ctxRegs),
               WriteContextRegRmw mmDB_RENDER_OVERRIDE m2 (dbRenderOverride_u32All ctxRegs)]"
    if "opt \<or> countCtx lp = 0"
    using that by (auto simp add: WriteContextCommands_def)
  have bl: "butlast (butlast (xs @ ys @ zs @ [c] @ [p, q])) = xs @ ys @ zs @ [c]"
    for xs ys zs :: "Pm4Command list" and c p q
    by (simp add: butlast_append)
  have setctx: "list_all isSetPathCommand
             (butlast (butlast (WriteContextCommands m1 m2 wa stages lp ctxRegs opt)))"
    if o: "opt \<or> countCtx lp = 0"
    unfolding eqctx [OF o] bl using allset by simp
  show ?thesis
    using sh ctx hsh hctx ish ictx setsh eqctx setctx allset len first by blast
qed

theorem load_path_only_without_optimizer_witness:
  "hd (WriteShCommands exampleChip exampleVsPsStages exampleLoadPath
         zero_SPI_SHADER_LATE_ALLOC_VS False exampleGraphicsInfo)
     = BuildLoadShRegsIndex 0x2000 1
   \<and> list_ex isLoadCommand
        (WriteShCommands exampleChip exampleVsPsStages exampleLoadPath
           zero_SPI_SHADER_LATE_ALLOC_VS True exampleGraphicsInfo) = False
   \<and> WriteShCommands exampleChip exampleVsPsStages exampleLoadPath
        zero_SPI_SHADER_LATE_ALLOC_VS True exampleGraphicsInfo
       = [WriteSetOneShReg_LATE_ALLOC_VS zero_SPI_SHADER_LATE_ALLOC_VS,
          ChunkVsPs_WriteShCommands False \<lparr>wavesPerSh = 0, stageCuEnableMask = 0xFFFF\<rparr>
            \<lparr>wavesPerSh = 0, stageCuEnableMask = 0xFFFF\<rparr>]"
  using load_path_only_without_optimizer
    [of exampleChip exampleVsPsStages exampleLoadPath zero_SPI_SHADER_LATE_ALLOC_VS False
        exampleGraphicsInfo]
    load_path_only_without_optimizer
    [of exampleChip exampleVsPsStages exampleLoadPath zero_SPI_SHADER_LATE_ALLOC_VS True
        exampleGraphicsInfo]
  by (simp add: exampleLoadPath_def exampleChip_def exampleVsPsStages_def
      exampleGraphicsInfo_def CalcDynamicStageInfos_def CalcDynamicStageInfo_def
      CalcMaxWavesPerSh_def zero_DynamicStageInfos_def Let_def)

subsection \<open>LoadBlock counts\<close>

lemma EarlyInit_closing_assertion:
  "snd (snd (EarlyInit inp chunks pInfo))
     = (if enableLoadIndexForObjectBinds inp
        then loadedShRegCount (fst (snd (EarlyInit inp chunks pInfo))) \<noteq> 0
             \<and> loadedCtxRegCount (fst (snd (EarlyInit inp chunks pInfo))) \<noteq> 0
        else loadedShRegCount (fst (snd (EarlyInit inp chunks pInfo))) = 0
             \<and> loadedCtxRegCount (fst (snd (EarlyInit inp chunks pInfo))) = 0)"
  unfolding EarlyInit_def Let_def by (simp only: fst_conv snd_conv simp_thms)

lemma HwlInit_loadPath_counts:
  "countSh (snd (HwlInit_loadPath out inp chunks)) = 0
     \<and> countCtx (snd (HwlInit_loadPath out inp chunks)) = 0
   \<or> countSh (snd (HwlInit_loadPath out inp chunks))
        = loadedShRegCount (fst (snd (EarlyInit inp chunks zero_GraphicsPipelineLoadInfo)))
     \<and> countCtx (snd (HwlInit_loadPath out inp chunks))
        = loadedCtxRegCount (fst (snd (EarlyInit inp chunks zero_GraphicsPipelineLoadInfo)))"
  by (simp add: HwlInit_loadPath_def Let_def zero_LoadPath_def
      new_GraphicsPipelineUploader_def)

lemma HwlInit_loadPath_success:
  "fst (HwlInit_loadPath out inp chunks) = Success \<Longrightarrow> EnableLoadIndexPath out \<Longrightarrow>
   countSh (snd (HwlInit_loadPath out inp chunks))
        = loadedShRegCount (fst (snd (EarlyInit inp chunks zero_GraphicsPipelineLoadInfo)))
     \<and> countCtx (snd (HwlInit_loadPath out inp chunks))
        = loadedCtxRegCount (fst (snd (EarlyInit inp chunks zero_GraphicsPipelineLoadInfo)))"
  by (simp add: HwlInit_loadPath_def Let_def new_GraphicsPipelineUploader_def
      split: if_splits)

text \<open>
  The two budgets that \<^verbatim>\<open>EarlyInit\<close> ends with: the base count and the register
  subsets of the stages that run, or zero.
\<close>

lemma EarlyInit_budgets:
  "loadedShRegCount (fst (snd (EarlyInit inp
       (stageCollaborators (enableLoadIndexForObjectBinds inp) lsHs esGs vsPs)
       zero_GraphicsPipelineLoadInfo)))
     = (if enableLoadIndexForObjectBinds inp
        then BaseLoadedShRegCount
             + (if stagesEn_IsTessEnabled inp then stageShRegCount lsHs else 0)
             + (if stagesEn_IsGsEnabled inp then stageShRegCount esGs else 0)
             + stageShRegCount vsPs
        else 0)
   \<and> loadedCtxRegCount (fst (snd (EarlyInit inp
       (stageCollaborators (enableLoadIndexForObjectBinds inp) lsHs esGs vsPs)
       zero_GraphicsPipelineLoadInfo)))
     = (if enableLoadIndexForObjectBinds inp
        then BaseLoadedCntxRegCount
             + (if stagesEn_IsTessEnabled inp then stageCtxRegCount lsHs else 0)
             + (if stagesEn_IsGsEnabled inp then stageCtxRegCount esGs else 0)
             + stageCtxRegCount vsPs
        else 0)"
  by (simp add: EarlyInit_def Let_def stageCollaborators_def chunk_EarlyInit_def
      zero_GraphicsPipelineLoadInfo_def)

lemma unat_sum2:
  fixes a b :: uint32
  assumes "unat a + unat b < 2 ^ 32"
  shows "unat (a + b) = unat a + unat b"
proof -
  have "unat a + unat b < 2 ^ LENGTH(32)" using assms by simp
  then show ?thesis by (simp only: unat_add_lem)
qed

lemma unat_sum4:
  fixes a b c d :: uint32
  assumes "unat a + unat b + unat c + unat d < 2 ^ 32"
  shows "unat (a + b + c + d) = unat a + unat b + unat c + unat d"
proof -
  have "unat a + unat b < 2 ^ 32" using assms by linarith
  then have ab: "unat (a + b) = unat a + unat b" by (rule unat_sum2)
  have "unat (a + b) + unat c < 2 ^ 32" using assms ab by linarith
  then have abc: "unat (a + b + c) = unat a + unat b + unat c"
    using ab unat_sum2 [of "a + b" c] by linarith
  have "unat (a + b + c) + unat d < 2 ^ 32" using assms abc by linarith
  then show ?thesis
    using abc unat_sum2 [of "a + b + c" d] by linarith
qed

lemma budget_nonzero:
  fixes a b c d :: uint32
  assumes n: "a \<noteq> 0" and s: "unat a + unat b + unat c + unat d < 2 ^ 32"
  shows "a + (if t then b else 0) + (if g then c else 0) + d \<noteq> 0"
proof -
  let ?b = "if t then b else 0" and ?c = "if g then c else 0"
  have "unat ?b \<le> unat b" and "unat ?c \<le> unat c" by simp_all
  then have "unat a + unat ?b + unat ?c + unat d < 2 ^ 32"
    using s by linarith
  then have "unat (a + ?b + ?c + d) = unat a + unat ?b + unat ?c + unat d"
    by (rule unat_sum4)
  moreover have "0 < unat a" using n by (simp add: unat_gt_0)
  ultimately have "0 < unat (a + ?b + ?c + d)" by linarith
  then show ?thesis by (simp add: unat_gt_0)
qed

text \<open>
  C9. With the stage collaborators and the uploader as the spec has them, and register
  subsets whose sum with the base count fits 32 bits for each group: for every value of
  the preload setting, every choice of active stages and every outcome of the
  compilation (successful or not), the two LoadBlock counts of the pipeline are both
  zero or both nonzero. The two budgets \<^verbatim>\<open>EarlyInit\<close> requests are both nonzero
  when the setting is on and both zero when it is off, so its closing assertion holds.
  A pipeline compiled successfully with the load-index path enabled has both LoadBlock
  counts nonzero when the setting is on; with the setting off both are zero.
\<close>

theorem LoadBlock_counts_paired:
  assumes c: "chunks = stageCollaborators (enableLoadIndexForObjectBinds inp) lsHs esGs vsPs"
    and sh: "unat BaseLoadedShRegCount + unat (stageShRegCount lsHs)
               + unat (stageShRegCount esGs) + unat (stageShRegCount vsPs) < 2 ^ 32"
    and ctx: "unat BaseLoadedCntxRegCount + unat (stageCtxRegCount lsHs)
               + unat (stageCtxRegCount esGs) + unat (stageCtxRegCount vsPs) < 2 ^ 32"
  shows "(countSh (snd (HwlInit_loadPath out inp chunks)) = 0
            \<and> countCtx (snd (HwlInit_loadPath out inp chunks)) = 0
          \<or> countSh (snd (HwlInit_loadPath out inp chunks)) \<noteq> 0
            \<and> countCtx (snd (HwlInit_loadPath out inp chunks)) \<noteq> 0)
       \<and> (if enableLoadIndexForObjectBinds inp
          then loadedShRegCount (fst (snd (EarlyInit inp chunks zero_GraphicsPipelineLoadInfo)))
                 \<noteq> 0
               \<and> loadedCtxRegCount (fst (snd (EarlyInit inp chunks
                    zero_GraphicsPipelineLoadInfo))) \<noteq> 0
          else loadedShRegCount (fst (snd (EarlyInit inp chunks zero_GraphicsPipelineLoadInfo)))
                 = 0
               \<and> loadedCtxRegCount (fst (snd (EarlyInit inp chunks
                    zero_GraphicsPipelineLoadInfo))) = 0)
       \<and> snd (snd (EarlyInit inp chunks zero_GraphicsPipelineLoadInfo))
       \<and> (fst (HwlInit_loadPath out inp chunks) = Success \<and> EnableLoadIndexPath out
            \<and> enableLoadIndexForObjectBinds inp \<longrightarrow>
          countSh (snd (HwlInit_loadPath out inp chunks)) \<noteq> 0
            \<and> countCtx (snd (HwlInit_loadPath out inp chunks)) \<noteq> 0)
       \<and> (\<not> enableLoadIndexForObjectBinds inp \<longrightarrow>
          countSh (snd (HwlInit_loadPath out inp chunks)) = 0
            \<and> countCtx (snd (HwlInit_loadPath out inp chunks)) = 0)"
proof -
  let ?i = "fst (snd (EarlyInit inp chunks zero_GraphicsPipelineLoadInfo))"
  let ?lp = "snd (HwlInit_loadPath out inp chunks)"
  have b1: "BaseLoadedShRegCount \<noteq> 0" by (simp add: BaseLoadedShRegCount_def)
  have b14: "BaseLoadedCntxRegCount \<noteq> 0" by (simp add: BaseLoadedCntxRegCount_def)
  have budgets: "if enableLoadIndexForObjectBinds inp
          then loadedShRegCount ?i \<noteq> 0 \<and> loadedCtxRegCount ?i \<noteq> 0
          else loadedShRegCount ?i = 0 \<and> loadedCtxRegCount ?i = 0"
  proof (cases "enableLoadIndexForObjectBinds inp")
    case True
    then show ?thesis
      unfolding c
      using EarlyInit_budgets [of inp lsHs esGs vsPs]
        budget_nonzero [OF b1 sh] budget_nonzero [OF b14 ctx]
      by simp
  next
    case False
    then show ?thesis
      unfolding c using EarlyInit_budgets [of inp lsHs esGs vsPs] by simp
  qed
  have closing: "snd (snd (EarlyInit inp chunks zero_GraphicsPipelineLoadInfo))"
    unfolding EarlyInit_closing_assertion [of inp chunks zero_GraphicsPipelineLoadInfo]
    by (rule budgets)
  have pair: "loadedShRegCount ?i = 0 \<longleftrightarrow> loadedCtxRegCount ?i = 0"
    using budgets by (cases "enableLoadIndexForObjectBinds inp") simp_all
  have both: "countSh ?lp = 0 \<and> countCtx ?lp = 0 \<or> countSh ?lp \<noteq> 0 \<and> countCtx ?lp \<noteq> 0"
    using HwlInit_loadPath_counts [of out inp chunks] pair by auto
  have on: "countSh ?lp \<noteq> 0 \<and> countCtx ?lp \<noteq> 0"
    if "fst (HwlInit_loadPath out inp chunks) = Success \<and> EnableLoadIndexPath out
          \<and> enableLoadIndexForObjectBinds inp"
    using that HwlInit_loadPath_success [of out inp chunks] budgets by simp
  have off: "countSh ?lp = 0 \<and> countCtx ?lp = 0"
    if "\<not> enableLoadIndexForObjectBinds inp"
    using that HwlInit_loadPath_counts [of out inp chunks] budgets by auto
  show ?thesis
    using both budgets closing on off by blast
qed

theorem LoadBlock_counts_paired_witness:
  "countSh (snd (HwlInit_loadPath exampleOutcomes exampleEarlyInitInputs
      (stageCollaborators True exampleLsHsPreload exampleEsGsPreload exampleVsPsPreload))) = 4
   \<and> countCtx (snd (HwlInit_loadPath exampleOutcomes exampleEarlyInitInputs
      (stageCollaborators True exampleLsHsPreload exampleEsGsPreload exampleVsPsPreload))) = 19
   \<and> snd (snd (EarlyInit exampleEarlyInitInputs
      (stageCollaborators True exampleLsHsPreload exampleEsGsPreload exampleVsPsPreload)
      zero_GraphicsPipelineLoadInfo))
   \<and> countSh (snd (HwlInit_loadPath exampleOutcomes exampleNoPreloadInputs
      (stageCollaborators False exampleLsHsPreload exampleEsGsPreload exampleVsPsPreload))) = 0
   \<and> countCtx (snd (HwlInit_loadPath exampleOutcomes exampleNoPreloadInputs
      (stageCollaborators False exampleLsHsPreload exampleEsGsPreload exampleVsPsPreload))) = 0"
proof -
  have e: "enableLoadIndexForObjectBinds exampleEarlyInitInputs = True"
    "enableLoadIndexForObjectBinds exampleNoPreloadInputs = False"
    by (simp_all add: exampleEarlyInitInputs_def exampleNoPreloadInputs_def)
  have s: "unat BaseLoadedShRegCount + unat (stageShRegCount exampleLsHsPreload)
               + unat (stageShRegCount exampleEsGsPreload)
               + unat (stageShRegCount exampleVsPsPreload) < 2 ^ 32"
    "unat BaseLoadedCntxRegCount + unat (stageCtxRegCount exampleLsHsPreload)
               + unat (stageCtxRegCount exampleEsGsPreload)
               + unat (stageCtxRegCount exampleVsPsPreload) < 2 ^ 32"
    by (simp_all add: BaseLoadedShRegCount_def BaseLoadedCntxRegCount_def
        exampleLsHsPreload_def exampleEsGsPreload_def exampleVsPsPreload_def)
  have v: "countSh (snd (HwlInit_loadPath exampleOutcomes exampleEarlyInitInputs
      (stageCollaborators True exampleLsHsPreload exampleEsGsPreload exampleVsPsPreload))) = 4
   \<and> countCtx (snd (HwlInit_loadPath exampleOutcomes exampleEarlyInitInputs
      (stageCollaborators True exampleLsHsPreload exampleEsGsPreload exampleVsPsPreload))) = 19"
    by (simp add: HwlInit_loadPath_def EarlyInit_def Let_def exampleOutcomes_def
        exampleEarlyInitInputs_def stageCollaborators_def chunk_EarlyInit_def
        exampleVsPsPreload_def zero_GraphicsPipelineLoadInfo_def
        new_GraphicsPipelineUploader_def BaseLoadedShRegCount_def BaseLoadedCntxRegCount_def)
  from LoadBlock_counts_paired
         [of "stageCollaborators True exampleLsHsPreload exampleEsGsPreload exampleVsPsPreload"
             exampleEarlyInitInputs exampleLsHsPreload exampleEsGsPreload exampleVsPsPreload
             exampleOutcomes]
       LoadBlock_counts_paired
         [of "stageCollaborators False exampleLsHsPreload exampleEsGsPreload exampleVsPsPreload"
             exampleNoPreloadInputs exampleLsHsPreload exampleEsGsPreload exampleVsPsPreload
             exampleOutcomes]
  show ?thesis
    using e s v by simp
qed

subsection \<open>Colour mode and write masks\<close>

lemma Rop3_Copy: "Rop3 LogicOp_Copy = 0xCC"
  by (simp add: Rop3_def Rop3Codes_def)

text \<open>
  C2, as the code has it. The chain has six outcomes and takes the first that applies,
  in the order fast-clear-eliminate, fmask-decompress, dcc-decompress, fixed-function
  resolve, and then, for a pipeline of none of these kinds, disabled (when the shader
  mask or the gathered client write mask is zero) or normal. Each outcome sets the colour
  mode. The first three also set the copy logic op and replace both masks by the four
  channels of target 0 alone; resolve sets the copy logic op and forces the four channels
  of target 0, keeping the bits of the other targets; disabled and normal keep both
  masks as the binary and the client gave them, and normal takes the client's logic op.
\<close>

theorem colorModeChain_outcomes:
  "(let r' = colorModeChain kind clientLogicOp r in
     (IsFastClearEliminate kind \<longrightarrow>
        MODE (cbColorControl r') = CB_ELIMINATE_FAST_CLEAR \<and> ROP3 (cbColorControl r') = 0xCC
        \<and> cbShaderMask r' = 0xF \<and> cbTargetMask r' = 0xF)
     \<and> (\<not> IsFastClearEliminate kind \<and> IsFmaskDecompress kind \<longrightarrow>
        MODE (cbColorControl r') = CB_FMASK_DECOMPRESS \<and> ROP3 (cbColorControl r') = 0xCC
        \<and> cbShaderMask r' = 0xF \<and> cbTargetMask r' = 0xF)
     \<and> (\<not> IsFastClearEliminate kind \<and> \<not> IsFmaskDecompress kind \<and> IsDccDecompress kind \<longrightarrow>
        MODE (cbColorControl r') = CB_DCC_DECOMPRESS_VI \<and> ROP3 (cbColorControl r') = 0xCC
        \<and> cbShaderMask r' = 0xF \<and> cbTargetMask r' = 0xF)
     \<and> (\<not> IsFastClearEliminate kind \<and> \<not> IsFmaskDecompress kind \<and> \<not> IsDccDecompress kind
          \<and> IsResolveFixedFunc kind \<longrightarrow>
        MODE (cbColorControl r') = CB_RESOLVE \<and> ROP3 (cbColorControl r') = 0xCC
        \<and> cbShaderMask r' = cbShaderMask r OR 0xF \<and> cbTargetMask r' = cbTargetMask r OR 0xF)
     \<and> (\<not> IsFastClearEliminate kind \<and> \<not> IsFmaskDecompress kind \<and> \<not> IsDccDecompress kind
          \<and> \<not> IsResolveFixedFunc kind \<longrightarrow>
        cbShaderMask r' = cbShaderMask r \<and> cbTargetMask r' = cbTargetMask r
        \<and> (if cbShaderMask r = 0 \<or> cbTargetMask r = 0
            then MODE (cbColorControl r') = CB_DISABLE
                 \<and> ROP3 (cbColorControl r') = ROP3 (cbColorControl r)
            else MODE (cbColorControl r') = CB_NORMAL
                 \<and> ROP3 (cbColorControl r') = Rop3 clientLogicOp)))"
proof -
  let ?r = "colorModeChain kind clientLogicOp r"
  have c1: "IsFastClearEliminate kind \<longrightarrow>
        MODE (cbColorControl ?r) = CB_ELIMINATE_FAST_CLEAR \<and> ROP3 (cbColorControl ?r) = 0xCC
        \<and> cbShaderMask ?r = 0xF \<and> cbTargetMask ?r = 0xF"
    by (simp add: colorModeChain_def Rop3_Copy)
  have c2: "\<not> IsFastClearEliminate kind \<and> IsFmaskDecompress kind \<longrightarrow>
        MODE (cbColorControl ?r) = CB_FMASK_DECOMPRESS \<and> ROP3 (cbColorControl ?r) = 0xCC
        \<and> cbShaderMask ?r = 0xF \<and> cbTargetMask ?r = 0xF"
    by (simp add: colorModeChain_def Rop3_Copy)
  have c3: "\<not> IsFastClearEliminate kind \<and> \<not> IsFmaskDecompress kind \<and> IsDccDecompress kind \<longrightarrow>
        MODE (cbColorControl ?r) = CB_DCC_DECOMPRESS_VI \<and> ROP3 (cbColorControl ?r) = 0xCC
        \<and> cbShaderMask ?r = 0xF \<and> cbTargetMask ?r = 0xF"
    by (simp add: colorModeChain_def Rop3_Copy)
  have c4: "\<not> IsFastClearEliminate kind \<and> \<not> IsFmaskDecompress kind \<and> \<not> IsDccDecompress kind
          \<and> IsResolveFixedFunc kind \<longrightarrow>
        MODE (cbColorControl ?r) = CB_RESOLVE \<and> ROP3 (cbColorControl ?r) = 0xCC
        \<and> cbShaderMask ?r = cbShaderMask r OR 0xF \<and> cbTargetMask ?r = cbTargetMask r OR 0xF"
    by (simp add: colorModeChain_def Rop3_Copy bit.disj_conj_distrib2)
  have c5: "\<not> IsFastClearEliminate kind \<and> \<not> IsFmaskDecompress kind \<and> \<not> IsDccDecompress kind
          \<and> \<not> IsResolveFixedFunc kind \<longrightarrow>
        cbShaderMask ?r = cbShaderMask r \<and> cbTargetMask ?r = cbTargetMask r
        \<and> (if cbShaderMask r = 0 \<or> cbTargetMask r = 0
            then MODE (cbColorControl ?r) = CB_DISABLE
                 \<and> ROP3 (cbColorControl ?r) = ROP3 (cbColorControl r)
            else MODE (cbColorControl ?r) = CB_NORMAL
                 \<and> ROP3 (cbColorControl ?r) = Rop3 clientLogicOp)"
    by (simp add: colorModeChain_def)
  show ?thesis
    unfolding Let_def using c1 c2 c3 c4 c5 by (intro conjI) assumption+
qed

theorem colorModeChain_outcomes_witness:
  "MODE (cbColorControl (colorModeChain exampleNormalKind LogicOp_Xor
           (zero_NonShaderRegisters\<lparr>cbShaderMask := 0xF, cbTargetMask := 0x1\<rparr>))) = CB_NORMAL
   \<and> ROP3 (cbColorControl (colorModeChain exampleNormalKind LogicOp_Xor
           (zero_NonShaderRegisters\<lparr>cbShaderMask := 0xF, cbTargetMask := 0x1\<rparr>))) = 0x66
   \<and> cbTargetMask (colorModeChain exampleNormalKind LogicOp_Xor
           (zero_NonShaderRegisters\<lparr>cbShaderMask := 0xF, cbTargetMask := 0x1\<rparr>)) = 0x1"
  using colorModeChain_outcomes
    [of exampleNormalKind LogicOp_Xor
        "zero_NonShaderRegisters\<lparr>cbShaderMask := 0xF, cbTargetMask := 0x1\<rparr>"]
  by (simp add: Let_def exampleNormalKind_def Rop3_def Rop3Codes_def)

text \<open>
  What the rest of the function does to the mode and the masks that the chain leaves:
  the dual-source fallback may turn the mode into disabled, and the toss point may clear
  the target mask of a pipeline that is not internal.
\<close>

lemma SetupNonShaderRegisters_mode_and_masks:
  "(let r2 = colorModeChain kind (logicOp createInfo)
               (nonShaderRegistersBeforeColorMode createInfo registers r0);
        r = fst (SetupNonShaderRegisters chip hdr rbp toss kind createInfo registers r0);
        alert = snd (snd (SetupNonShaderRegisters chip hdr rbp toss kind createInfo registers r0))
    in cbShaderMask r = cbShaderMask r2
       \<and> cbTargetMask r = (if IsInternal kind = False \<and> toss then 0 else cbTargetMask r2)
       \<and> MODE (cbColorControl r) = (if alert then CB_DISABLE else MODE (cbColorControl r2))
       \<and> ROP3 (cbColorControl r) = ROP3 (cbColorControl r2))"
  by (auto simp add: SetupNonShaderRegisters_def Let_def split_def)

lemma cbTargetMaskLoop_red_only:
  "cbTargetMaskLoop (target exampleRedOnlyCreateInfo) [0 ..< MaxColorTargets] 0 = 0x1"
  by (simp add: MaxColorTargets_def exampleRedOnlyCreateInfo_def upt_rec)

text \<open>
  The claim as stated fails. In an ordinary pipeline whose client enables only the red
  channel of target 0, the category that applies is normal, and the target mask stays
  the client's \<open>0x1\<close>: it is not forced to all channels. And when the binary's shader
  mask is 0, the mode is disabled, which is none of the five categories.
\<close>

theorem normal_pipeline_keeps_client_write_mask:
  "cbTargetMask (fst (SetupNonShaderRegisters exampleChip exampleSxHeader False False
       exampleNormalKind exampleRedOnlyCreateInfo exampleRegisters zero_NonShaderRegisters))
     = 0x1
   \<and> MODE (cbColorControl (fst (SetupNonShaderRegisters exampleChip exampleSxHeader False False
       exampleNormalKind exampleRedOnlyCreateInfo exampleRegisters zero_NonShaderRegisters)))
     = CB_NORMAL
   \<and> MODE (cbColorControl (fst (SetupNonShaderRegisters exampleChip exampleSxHeader False False
       exampleNormalKind exampleRedOnlyCreateInfo
       (exampleRegisters\<lparr>CB_SHADER_MASK_at := 0\<rparr>) zero_NonShaderRegisters)))
     = CB_DISABLE"
proof -
  have r1: "nonShaderRegistersBeforeColorMode exampleRedOnlyCreateInfo exampleRegisters
              zero_NonShaderRegisters
            = zero_NonShaderRegisters
                \<lparr>paScLineCntl := \<lparr>EXPAND_LINE_WIDTH = 0, DX10_DIAMOND_TEST_ENA = 1,
                                   LAST_PIXEL = 0, PERPENDICULAR_ENDCAP_ENA = 0\<rparr>,
                 cbShaderMask := 0xF, cbTargetMask := 0x1\<rparr>"
    using cbTargetMaskLoop_red_only
    by (simp add: nonShaderRegistersBeforeColorMode_def zero_NonShaderRegisters_def
        exampleRegisters_def exampleRedOnlyCreateInfo_def)
  have r1': "nonShaderRegistersBeforeColorMode exampleRedOnlyCreateInfo
              (exampleRegisters\<lparr>CB_SHADER_MASK_at := 0\<rparr>) zero_NonShaderRegisters
            = zero_NonShaderRegisters
                \<lparr>paScLineCntl := \<lparr>EXPAND_LINE_WIDTH = 0, DX10_DIAMOND_TEST_ENA = 1,
                                   LAST_PIXEL = 0, PERPENDICULAR_ENDCAP_ENA = 0\<rparr>,
                 cbShaderMask := 0, cbTargetMask := 0x1\<rparr>"
    using cbTargetMaskLoop_red_only
    by (simp add: nonShaderRegistersBeforeColorMode_def zero_NonShaderRegisters_def
        exampleRegisters_def exampleRedOnlyCreateInfo_def)
  have d: "dualSourceBlendEnable exampleRedOnlyCreateInfo = False"
     "logicOp exampleRedOnlyCreateInfo = LogicOp_Copy"
     "alphaToCoverageEnable exampleRedOnlyCreateInfo = False"
    by (simp_all add: exampleRedOnlyCreateInfo_def)
  have a: "cbTargetMask (fst (SetupNonShaderRegisters exampleChip exampleSxHeader False False
       exampleNormalKind exampleRedOnlyCreateInfo exampleRegisters zero_NonShaderRegisters))
     = 0x1
   \<and> MODE (cbColorControl (fst (SetupNonShaderRegisters exampleChip exampleSxHeader False False
       exampleNormalKind exampleRedOnlyCreateInfo exampleRegisters zero_NonShaderRegisters)))
     = CB_NORMAL"
    unfolding SetupNonShaderRegisters_def Let_def split_def r1 d
    by (simp add: colorModeChain_def exampleNormalKind_def zero_NonShaderRegisters_def
        exampleChip_def)
  have b: "MODE (cbColorControl (fst (SetupNonShaderRegisters exampleChip exampleSxHeader
       False False exampleNormalKind exampleRedOnlyCreateInfo
       (exampleRegisters\<lparr>CB_SHADER_MASK_at := 0\<rparr>) zero_NonShaderRegisters)))
     = CB_DISABLE"
    unfolding SetupNonShaderRegisters_def Let_def split_def r1' d
    by (simp add: colorModeChain_def exampleNormalKind_def zero_NonShaderRegisters_def
        exampleChip_def)
  show ?thesis using a b by simp
qed

end
